theory Spec2Isabelle
  imports Complex_Main
begin

section \<open>JavaScript values\<close>

text \<open>
  A JavaScript number is a finite value, an infinity or NaN. Finite values are kept as
  rationals (every finite double is one; \<open>-0\<close> and \<open>0\<close> coincide, and both are falsy).
\<close>

datatype jsnum = NaN | PosInfinity | NegInfinity | Num rat

text \<open>
  A value that arrives as tool arguments. \<open>undefined\<close> is \<open>None\<close> of
  \<open>jsval option\<close>; an object is the list of its own properties.
\<close>

datatype jsval =
    JNull
  | JBool bool
  | JNumber jsnum
  | JString string
  | JArray "jsval list"
  | JObject "(string \<times> jsval) list"

datatype jstype = T_undefined | T_object | T_boolean | T_number | T_string

fun typeof :: "jsval option \<Rightarrow> jstype" where
  "typeof None = T_undefined"
| "typeof (Some JNull) = T_object"
| "typeof (Some (JBool b)) = T_boolean"
| "typeof (Some (JNumber n)) = T_number"
| "typeof (Some (JString s)) = T_string"
| "typeof (Some (JArray xs)) = T_object"
| "typeof (Some (JObject kvs)) = T_object"

text \<open>Truthiness of a number: \<open>0\<close> and \<open>NaN\<close> are falsy.\<close>

definition truthy_num :: "jsnum \<Rightarrow> bool" where
  "truthy_num n = (n \<noteq> NaN \<and> n \<noteq> Num 0)"

text \<open>Truthiness of any value, as \<open>!args\<close> tests it.\<close>

fun truthy :: "jsval option \<Rightarrow> bool" where
  "truthy None = False"
| "truthy (Some JNull) = False"
| "truthy (Some (JBool b)) = b"
| "truthy (Some (JNumber n)) = truthy_num n"
| "truthy (Some (JString s)) = (s \<noteq> [])"
| "truthy (Some (JArray xs)) = True"
| "truthy (Some (JObject kvs)) = True"

text \<open>
  \<open>args.key\<close> and \<open>'key' in args\<close>, for the keys the router reads (none of them is
  an array index, \<open>length\<close> or a property of \<open>Object.prototype\<close>). Both are only
  evaluated after \<open>args\<close> has been found truthy and of type object.
\<close>

fun get_prop :: "jsval option \<Rightarrow> string \<Rightarrow> jsval option" where
  "get_prop (Some (JObject kvs)) k = map_of kvs k"
| "get_prop _ k = None"

fun has_prop :: "string \<Rightarrow> jsval option \<Rightarrow> bool" where
  "has_prop k (Some (JObject kvs)) = (map_of kvs k \<noteq> None)"
| "has_prop k _ = False"

text \<open>\<open>typeof v === 'string' ? v : undefined\<close> and its counterpart for numbers.\<close>

fun string_or_undefined :: "jsval option \<Rightarrow> string option" where
  "string_or_undefined (Some (JString s)) = Some s"
| "string_or_undefined _ = None"

fun number_or_undefined :: "jsval option \<Rightarrow> jsnum option" where
  "number_or_undefined (Some (JNumber n)) = Some n"
| "number_or_undefined _ = None"

text \<open>\<open>params.query || ''\<close> and \<open>params.limit || 10\<close>.\<close>

definition or_empty :: "string option \<Rightarrow> string" where
  "or_empty q = (case q of None \<Rightarrow> [] | Some s \<Rightarrow> s)"

definition or_10 :: "jsnum option \<Rightarrow> jsnum" where
  "or_10 l = (case l of None \<Rightarrow> Num 10 | Some n \<Rightarrow> if truthy_num n then n else Num 10)"

text \<open>
  \<open>if (v) { query += prefix + v }\<close> for an optional string \<open>v\<close>: an absent and an
  empty string are both falsy.
\<close>

definition append_filter :: "string \<Rightarrow> string \<Rightarrow> string option \<Rightarrow> string" where
  "append_filter query prefix v =
     (case v of
        None \<Rightarrow> query
      | Some s \<Rightarrow> if s \<noteq> [] then query @ prefix @ s else query)"

text \<open>Decimal rendering of a natural number, as a template literal renders it.\<close>

fun string_of_nat :: "nat \<Rightarrow> string" where
  "string_of_nat n =
     (if n < 10 then [char_of (48 + n)]
      else string_of_nat (n div 10) @ [char_of (48 + n mod 10)])"

declare string_of_nat.simps [simp del]

section \<open>Types of the adapter (types.ts)\<close>

text \<open>
  Company, FundingRound, Acquisition and Person all carry \<open>uuid: string\<close>; it is the
  only field the adapter reads. The other fields travel untouched in \<open>other_fields\<close>.
\<close>

record entity =
  uuid :: string
  other_fields :: "(string \<times> jsval) list"

text \<open>\<open>CrunchbaseApiResponse<T[]>\<close>\<close>

record api_response =
  data :: "entity list"
  count :: jsnum
  total_count :: jsnum

record SearchCompaniesInput =
  sc_query :: "string option"
  sc_location :: "string option"
  sc_category :: "string option"
  sc_founded_after :: "string option"
  sc_founded_before :: "string option"
  sc_status :: "string option"
  sc_limit :: "jsnum option"

record GetCompanyDetailsInput =
  name_or_id :: string

record GetFundingRoundsInput =
  fr_company_name_or_id :: string
  fr_limit :: "jsnum option"

record GetAcquisitionsInput =
  acq_company_name_or_id :: "string option"
  acq_limit :: "jsnum option"

record SearchPeopleInput =
  sp_query :: "string option"
  sp_company :: "string option"
  sp_title :: "string option"
  sp_limit :: "jsnum option"

section \<open>Errors\<close>

text \<open>
  The part of an HTTP error response that \<open>handleError\<close> reads: the status, and
  \<open>response.data?.message\<close> (a string) when the body has one.
\<close>

record error_response =
  status :: nat
  data_message :: "string option"

text \<open>An error of the HTTP client: \<open>response\<close> is absent when no response arrived.\<close>

record axios_error =
  response :: "error_response option"
  ax_message :: string

datatype error_code = InvalidRequest | MethodNotFound | InvalidParams | InternalError

text \<open>
  What a \<open>catch\<close> can receive. \<open>McpError c m\<close> is \<open>new McpError(c, m)\<close>;
  \<open>NonError\<close> stands for a thrown value that is no instance of \<open>Error\<close>.
\<close>

datatype js_error =
    Error string
  | TypeError string
  | URIError string
  | McpError error_code string
  | AxiosError axios_error
  | NonError

fun instanceof_Error :: "js_error \<Rightarrow> bool" where
  "instanceof_Error NonError = False"
| "instanceof_Error _ = True"

fun instanceof_McpError :: "js_error \<Rightarrow> bool" where
  "instanceof_McpError (McpError c m) = True"
| "instanceof_McpError _ = False"

fun isAxiosError :: "js_error \<Rightarrow> bool" where
  "isAxiosError (AxiosError e) = True"
| "isAxiosError _ = False"

text \<open>
  \<open>error.message\<close>. The protocol library builds the message of a \<open>McpError\<close> from its
  code and the message it was constructed with; \<open>fmt\<close> is that construction.
\<close>

fun message :: "(error_code \<Rightarrow> string \<Rightarrow> string) \<Rightarrow> js_error \<Rightarrow> string" where
  "message fmt (Error m) = m"
| "message fmt (TypeError m) = m"
| "message fmt (URIError m) = m"
| "message fmt (McpError c m) = fmt c m"
| "message fmt (AxiosError e) = ax_message e"
| "message fmt NonError = []"

text \<open>\<open>${status}\<close> for \<open>error.response?.status\<close>.\<close>

definition render_status :: "nat option \<Rightarrow> string" where
  "render_status s = (case s of None \<Rightarrow> ''undefined'' | Some n \<Rightarrow> string_of_nat n)"

text \<open>\<open>error.response?.data?.message || error.message\<close>\<close>

definition upstream_message :: "axios_error \<Rightarrow> string" where
  "upstream_message e =
     (case response e of
        None \<Rightarrow> ax_message e
      | Some r \<Rightarrow>
          (case data_message r of
             None \<Rightarrow> ax_message e
           | Some m \<Rightarrow> if m \<noteq> [] then m else ax_message e))"

definition handleError :: "js_error \<Rightarrow> js_error" where
  "handleError error =
     (case error of
        AxiosError e \<Rightarrow>
          (let status = map_option status (response e);
               message = upstream_message e
           in if status = Some 401 then Error ''Unauthorized: Invalid API key''
              else if status = Some 404 then Error ''Not found: The requested resource does not exist''
              else if status = Some 429 then Error ''Rate limit exceeded: Too many requests''
              else Error (''Crunchbase API error ('' @ render_status status @ ''): '' @ message))
      | NonError \<Rightarrow> Error ''Unknown error''
      | _ \<Rightarrow> error)"

section \<open>The upstream API and the HTTP client\<close>

datatype param = PString string | PNumber jsnum

record request =
  url :: string
  params :: "(string \<times> param) list"

text \<open>One HTTP exchange: the request sent, and the client's error when it failed.\<close>

record exchange =
  sent :: request
  failure :: "axios_error option"

type_synonym trace = "exchange list"

text \<open>
  The remote API answers a request, possibly depending on the exchanges before it.
  \<open>list_endpoint\<close> answers the calls typed \<open>CrunchbaseApiResponse<T[]>\<close>,
  \<open>entity_endpoint\<close> the call typed \<open>Company\<close>.
\<close>

record upstream =
  list_endpoint :: "trace \<Rightarrow> request \<Rightarrow> axios_error + api_response"
  entity_endpoint :: "trace \<Rightarrow> request \<Rightarrow> axios_error + entity"

definition record_exchange :: "request \<Rightarrow> axios_error + 'a \<Rightarrow> trace \<Rightarrow> (js_error + 'a) \<times> trace" where
  "record_exchange rq answer tr =
     (case answer of
        Inl e \<Rightarrow> (Inl (AxiosError e), tr @ [\<lparr>sent = rq, failure = Some e\<rparr>])
      | Inr v \<Rightarrow> (Inr v, tr @ [\<lparr>sent = rq, failure = None\<rparr>]))"

definition get_list :: "upstream \<Rightarrow> request \<Rightarrow> trace \<Rightarrow> (js_error + api_response) \<times> trace" where
  "get_list up rq tr = record_exchange rq (list_endpoint up tr rq) tr"

definition get_entity :: "upstream \<Rightarrow> request \<Rightarrow> trace \<Rightarrow> (js_error + entity) \<times> trace" where
  "get_entity up rq tr = record_exchange rq (entity_endpoint up tr rq) tr"

section \<open>The adapter (class CrunchbaseAPI)\<close>

text \<open>
  Each method is a \<open>try\<close> block followed by \<open>catch (error) { throw this.handleError(error) }\<close>.
  A method takes the trace of exchanges so far and returns its result, or the error it
  throws, with the trace after it. Logging to the console and the fixed request headers
  (among them the API key) are left out: no result depends on them.
\<close>

text \<open>\<open>catch (error) { throw this.handleError(error) }\<close>\<close>

definition rethrow_handled :: "(js_error + 'a) \<times> trace \<Rightarrow> (js_error + 'a) \<times> trace" where
  "rethrow_handled r =
     (case r of
        (Inl error, tr) \<Rightarrow> (Inl (handleError error), tr)
      | (Inr v, tr) \<Rightarrow> (Inr v, tr))"

text \<open>\<open>return response.data.data\<close>\<close>

definition return_data :: "(js_error + api_response) \<times> trace \<Rightarrow> (js_error + entity list) \<times> trace" where
  "return_data r =
     (case r of
        (Inl error, tr) \<Rightarrow> (Inl error, tr)
      | (Inr resp, tr) \<Rightarrow> (Inr (data resp), tr))"

definition companies_query :: "SearchCompaniesInput \<Rightarrow> string" where
  "companies_query p =
     (let query = or_empty (sc_query p);
          query = append_filter query '' AND location:'' (sc_location p);
          query = append_filter query '' AND category:'' (sc_category p);
          query = append_filter query '' AND founded_on:>='' (sc_founded_after p);
          query = append_filter query '' AND founded_on:<='' (sc_founded_before p);
          query = append_filter query '' AND status:'' (sc_status p)
      in query)"

definition searchCompanies :: "upstream \<Rightarrow> SearchCompaniesInput \<Rightarrow> trace \<Rightarrow> (js_error + entity list) \<times> trace" where
  "searchCompanies up p tr =
     rethrow_handled (return_data (get_list up
       \<lparr>url = ''/searches/organizations'',
        params = [(''query'', PString (companies_query p)),
                  (''limit'', PNumber (or_10 (sc_limit p))),
                  (''order'', PString ''rank DESC'')]\<rparr> tr))"

text \<open>
  The body of \<open>getCompanyDetails\<close>. \<open>data[0]\<close> of an empty list is \<open>undefined\<close>, and
  reading \<open>uuid\<close> from it raises a TypeError.
\<close>

definition getCompanyDetails_try :: "upstream \<Rightarrow> GetCompanyDetailsInput \<Rightarrow> trace \<Rightarrow> (js_error + entity) \<times> trace" where
  "getCompanyDetails_try up p tr =
     (case get_list up
        \<lparr>url = ''/searches/organizations'',
         params = [(''query'', PString (name_or_id p)), (''limit'', PNumber (Num 1))]\<rparr> tr of
        (Inl error, tr1) \<Rightarrow> (Inl error, tr1)
      | (Inr searchResponse, tr1) \<Rightarrow>
          if count searchResponse = Num 0
          then (Inl (Error (''Company not found: '' @ name_or_id p)), tr1)
          else (case data searchResponse of
                  [] \<Rightarrow> (Inl (TypeError ''Cannot read properties of undefined (reading 'uuid')''), tr1)
                | first # _ \<Rightarrow>
                    (let companyId = uuid first
                     in get_entity up
                          \<lparr>url = ''/entities/organizations/'' @ companyId, params = []\<rparr> tr1)))"

definition getCompanyDetails :: "upstream \<Rightarrow> GetCompanyDetailsInput \<Rightarrow> trace \<Rightarrow> (js_error + entity) \<times> trace" where
  "getCompanyDetails up p tr = rethrow_handled (getCompanyDetails_try up p tr)"

definition getFundingRounds :: "upstream \<Rightarrow> GetFundingRoundsInput \<Rightarrow> trace \<Rightarrow> (js_error + entity list) \<times> trace" where
  "getFundingRounds up p tr =
     rethrow_handled
       (case getCompanyDetails up \<lparr>name_or_id = fr_company_name_or_id p\<rparr> tr of
          (Inl error, tr1) \<Rightarrow> (Inl error, tr1)
        | (Inr company, tr1) \<Rightarrow>
            return_data (get_list up
              \<lparr>url = ''/entities/organizations/'' @ uuid company @ ''/funding_rounds'',
               params = [(''limit'', PNumber (or_10 (fr_limit p))),
                         (''order'', PString ''announced_on DESC'')]\<rparr> tr1))"

text \<open>The query of \<open>getAcquisitions\<close>, from the optional \<open>companyId\<close>.\<close>

definition acquisitions_query :: "string option \<Rightarrow> string" where
  "acquisitions_query companyId =
     (case companyId of
        None \<Rightarrow> []
      | Some i \<Rightarrow>
          if i \<noteq> []
          then ''acquirer_identifier.uuid:'' @ i @ '' OR acquiree_identifier.uuid:'' @ i
          else [])"

definition acquisitions_request :: "GetAcquisitionsInput \<Rightarrow> string option \<Rightarrow> request" where
  "acquisitions_request p companyId =
     \<lparr>url = ''/searches/acquisitions'',
      params = [(''query'', PString (acquisitions_query companyId)),
                (''limit'', PNumber (or_10 (acq_limit p))),
                (''order'', PString ''announced_on DESC'')]\<rparr>"

text \<open>
  The first step of \<open>getAcquisitions\<close>: \<open>companyId\<close> stays \<open>undefined\<close> unless
  \<open>params.company_name_or_id\<close> is truthy, in which case the company is resolved.
\<close>

definition acquisitions_companyId :: "upstream \<Rightarrow> GetAcquisitionsInput \<Rightarrow> trace \<Rightarrow> (js_error + string option) \<times> trace" where
  "acquisitions_companyId up p tr =
     (case acq_company_name_or_id p of
        None \<Rightarrow> (Inr None, tr)
      | Some n \<Rightarrow>
          if n \<noteq> []
          then (case getCompanyDetails up \<lparr>name_or_id = n\<rparr> tr of
                  (Inl error, tr1) \<Rightarrow> (Inl error, tr1)
                | (Inr company, tr1) \<Rightarrow> (Inr (Some (uuid company)), tr1))
          else (Inr None, tr))"

definition getAcquisitions :: "upstream \<Rightarrow> GetAcquisitionsInput \<Rightarrow> trace \<Rightarrow> (js_error + entity list) \<times> trace" where
  "getAcquisitions up p tr =
     rethrow_handled
       (case acquisitions_companyId up p tr of
          (Inl error, tr1) \<Rightarrow> (Inl error, tr1)
        | (Inr companyId, tr1) \<Rightarrow>
            return_data (get_list up (acquisitions_request p companyId) tr1))"

definition people_query :: "SearchPeopleInput \<Rightarrow> string" where
  "people_query p =
     (let query = or_empty (sp_query p);
          query = append_filter query '' AND featured_job_organization_name:'' (sp_company p);
          query = append_filter query '' AND featured_job_title:'' (sp_title p)
      in query)"

definition searchPeople :: "upstream \<Rightarrow> SearchPeopleInput \<Rightarrow> trace \<Rightarrow> (js_error + entity list) \<times> trace" where
  "searchPeople up p tr =
     rethrow_handled (return_data (get_list up
       \<lparr>url = ''/searches/people'',
        params = [(''query'', PString (people_query p)),
                  (''limit'', PNumber (or_10 (sp_limit p))),
                  (''order'', PString ''rank DESC'')]\<rparr> tr))"

section \<open>Percent-decoding and URI templates\<close>

definition hex_val :: "char \<Rightarrow> nat option" where
  "hex_val c =
     (let n = of_char c :: nat
      in if 48 \<le> n \<and> n \<le> 57 then Some (n - 48)
         else if 65 \<le> n \<and> n \<le> 70 then Some (n - 55)
         else if 97 \<le> n \<and> n \<le> 102 then Some (n - 87)
         else None)"

text \<open>An escape \<open>%XX\<close> at the head of a string: its byte and the rest.\<close>

fun escape :: "string \<Rightarrow> (nat \<times> string) option" where
  "escape (p # h # l # rest) =
     (if p = CHR ''%'' then
        (case (hex_val h, hex_val l) of
           (Some a, Some b) \<Rightarrow> Some (16 * a + b, rest)
         | _ \<Rightarrow> None)
      else None)"
| "escape _ = None"

text \<open>The \<open>k\<close> escapes that must follow the first byte of a multi-byte sequence.\<close>

fun continuation :: "nat \<Rightarrow> string \<Rightarrow> (nat list \<times> string) option" where
  "continuation 0 s = Some ([], s)"
| "continuation (Suc k) s =
     (case escape s of
        None \<Rightarrow> None
      | Some (b, rest) \<Rightarrow>
          (case continuation k rest of
             None \<Rightarrow> None
           | Some (bs, rest') \<Rightarrow> Some (b # bs, rest')))"

text \<open>
  The number of bytes a first byte announces (its leading one bits); \<open>None\<close> for a
  continuation byte met first and for more than four.
\<close>

definition sequence_length :: "nat \<Rightarrow> nat option" where
  "sequence_length b =
     (if b < 128 then Some 1
      else if b < 192 then None
      else if b < 224 then Some 2
      else if b < 240 then Some 3
      else if b < 248 then Some 4
      else None)"

definition cont_byte :: "nat \<Rightarrow> nat \<Rightarrow> nat \<Rightarrow> bool" where
  "cont_byte lo hi b = (lo \<le> b \<and> b \<le> hi)"

text \<open>Well-formed UTF-8 of one code point: no overlong form, no surrogate, at most U+10FFFF.\<close>

fun valid_utf8 :: "nat list \<Rightarrow> bool" where
  "valid_utf8 [a, b] = (194 \<le> a \<and> a \<le> 223 \<and> cont_byte 128 191 b)"
| "valid_utf8 [a, b, c] =
     ((a = 224 \<and> cont_byte 160 191 b
       \<or> 225 \<le> a \<and> a \<le> 236 \<and> cont_byte 128 191 b
       \<or> a = 237 \<and> cont_byte 128 159 b
       \<or> 238 \<le> a \<and> a \<le> 239 \<and> cont_byte 128 191 b)
      \<and> cont_byte 128 191 c)"
| "valid_utf8 [a, b, c, d] =
     ((a = 240 \<and> cont_byte 144 191 b
       \<or> 241 \<le> a \<and> a \<le> 243 \<and> cont_byte 128 191 b
       \<or> a = 244 \<and> cont_byte 128 143 b)
      \<and> cont_byte 128 191 c \<and> cont_byte 128 191 d)"
| "valid_utf8 _ = False"

lemma escape_shorter: "escape s = Some (b, r) \<Longrightarrow> length r < length s"
  by (induction s rule: escape.induct) (auto split: if_splits option.splits)

lemma continuation_not_longer: "continuation k s = Some (bs, r) \<Longrightarrow> length r \<le> length s"
proof (induction k s arbitrary: bs r rule: continuation.induct)
  case (1 s)
  then show ?case by simp
next
  case (2 k s)
  from "2.prems" obtain b rest bs' where
    e: "escape s = Some (b, rest)" and c: "continuation k rest = Some (bs', r)"
    by (auto split: option.splits)
  from "2.IH" [OF e refl c] escape_shorter [OF e] show ?case by simp
qed

text \<open>
  \<open>decodeURIComponent\<close> on a string of bytes: \<open>None\<close> is the URIError it raises on a
  malformed escape or on escapes that are not the UTF-8 form of a code point.
\<close>

function decodeURIComponent :: "string \<Rightarrow> string option" where
  "decodeURIComponent [] = Some []"
| "decodeURIComponent (c # s) =
     (if c \<noteq> CHR ''%'' then map_option ((#) c) (decodeURIComponent s)
      else (case escape (c # s) of
              None \<Rightarrow> None
            | Some (b, rest) \<Rightarrow>
                (case sequence_length b of
                   None \<Rightarrow> None
                 | Some n \<Rightarrow>
                     (case continuation (n - 1) rest of
                        None \<Rightarrow> None
                      | Some (bs, rest') \<Rightarrow>
                          if n = 1 \<or> valid_utf8 (b # bs)
                          then map_option ((@) (map char_of (b # bs))) (decodeURIComponent rest')
                          else None))))"
  by pat_completeness auto
termination
proof (relation "measure length")
  show "wf (measure length)" by simp
next
  fix c :: char and s
  show "(s, c # s) \<in> measure length" by simp
next
  fix c :: char and s x2 b rest n x2a bs rest'
  assume "escape (c # s) = Some x2" "(b, rest) = x2"
    and "continuation (n - 1) rest = Some x2a" "(bs, rest') = x2a"
  then have "length rest < length (c # s)" "length rest' \<le> length rest"
    using escape_shorter continuation_not_longer by metis+
  then show "(rest', c # s) \<in> measure length" by simp
qed

text \<open>
  The three regular expressions \<open>^crunchbase:\/\/companies\/([^/]+)SUFFIX$\<close>, with
  SUFFIX empty, \<open>\/funding\<close> or \<open>\/acquisitions\<close>: the capture is the longest run
  without a slash after the prefix, and it must be non-empty and followed by exactly
  the suffix.
\<close>

fun strip_prefix :: "string \<Rightarrow> string \<Rightarrow> string option" where
  "strip_prefix [] s = Some s"
| "strip_prefix (p # ps) [] = None"
| "strip_prefix (p # ps) (c # s) = (if p = c then strip_prefix ps s else None)"

definition match_companies :: "string \<Rightarrow> string \<Rightarrow> string option" where
  "match_companies suffix uri =
     (case strip_prefix ''crunchbase://companies/'' uri of
        None \<Rightarrow> None
      | Some rest \<Rightarrow>
          (let name = takeWhile (\<lambda>c. c \<noteq> CHR ''/'') rest;
               tail = dropWhile (\<lambda>c. c \<noteq> CHR ''/'') rest
           in if name \<noteq> [] \<and> tail = suffix then Some name else None))"

section \<open>The router (class CrunchbaseMcpServer)\<close>

text \<open>
  The text of a content block: a literal string, or \<open>JSON.stringify(x, null, 2)\<close> of
  the adapter's result \<open>x\<close>, kept symbolic.
\<close>

datatype payload = Plain string | Stringify_entity entity | Stringify_list "entity list"

record CallToolResult =
  content :: "payload list"
  isError :: "bool option"

record ResourceContents =
  uri :: string
  mimeType :: string
  contents_text :: payload

definition tool_content :: "payload \<Rightarrow> CallToolResult" where
  "tool_content t = \<lparr>content = [t], isError = None\<rparr>"

definition resource_contents :: "string \<Rightarrow> payload \<Rightarrow> ResourceContents list" where
  "resource_contents u t = [\<lparr>uri = u, mimeType = ''application/json'', contents_text = t\<rparr>]"

text \<open>\<open>!args || typeof args !== 'object'\<close>\<close>

definition not_an_object :: "jsval option \<Rightarrow> bool" where
  "not_an_object args = (\<not> truthy args \<or> typeof args \<noteq> T_object)"

text \<open>
  The guard of a required string argument \<open>k\<close>,
  \<open>!args || typeof args !== 'object' || !(k in args) || typeof args[k] !== 'string'\<close>:
  \<open>None\<close> when it holds, the string otherwise.
\<close>

definition required_string :: "jsval option \<Rightarrow> string \<Rightarrow> string option" where
  "required_string args k =
     (if not_an_object args \<or> \<not> has_prop k args \<or> typeof (get_prop args k) \<noteq> T_string
      then None
      else string_or_undefined (get_prop args k))"

definition text_of_list :: "(js_error + entity list) \<times> trace \<Rightarrow> (js_error + payload) \<times> trace" where
  "text_of_list r =
     (case r of
        (Inl error, tr) \<Rightarrow> (Inl error, tr)
      | (Inr xs, tr) \<Rightarrow> (Inr (Stringify_list xs), tr))"

definition text_of_entity :: "(js_error + entity) \<times> trace \<Rightarrow> (js_error + payload) \<times> trace" where
  "text_of_entity r =
     (case r of
        (Inl error, tr) \<Rightarrow> (Inl error, tr)
      | (Inr x, tr) \<Rightarrow> (Inr (Stringify_entity x), tr))"

text \<open>The \<open>switch (name)\<close> of the tool handler, up to the text of the result.\<close>

definition tool_switch :: "upstream \<Rightarrow> string \<Rightarrow> jsval option \<Rightarrow> trace \<Rightarrow> (js_error + payload) \<times> trace" where
  "tool_switch up name args tr =
     (if name = ''search_companies'' then
        (if not_an_object args then (Inl (McpError InvalidParams ''Invalid parameters''), tr)
         else text_of_list (searchCompanies up
                \<lparr>sc_query = string_or_undefined (get_prop args ''query''),
                 sc_location = string_or_undefined (get_prop args ''location''),
                 sc_category = string_or_undefined (get_prop args ''category''),
                 sc_founded_after = string_or_undefined (get_prop args ''founded_after''),
                 sc_founded_before = string_or_undefined (get_prop args ''founded_before''),
                 sc_status = string_or_undefined (get_prop args ''status''),
                 sc_limit = number_or_undefined (get_prop args ''limit'')\<rparr> tr))
      else if name = ''get_company_details'' then
        (case required_string args ''name_or_id'' of
           None \<Rightarrow> (Inl (McpError InvalidParams ''Missing or invalid name_or_id parameter''), tr)
         | Some s \<Rightarrow> text_of_entity (getCompanyDetails up \<lparr>name_or_id = s\<rparr> tr))
      else if name = ''get_funding_rounds'' then
        (case required_string args ''company_name_or_id'' of
           None \<Rightarrow> (Inl (McpError InvalidParams ''Missing or invalid company_name_or_id parameter''), tr)
         | Some s \<Rightarrow> text_of_list (getFundingRounds up
                \<lparr>fr_company_name_or_id = s,
                 fr_limit = number_or_undefined (get_prop args ''limit'')\<rparr> tr))
      else if name = ''get_acquisitions'' then
        (if not_an_object args then (Inl (McpError InvalidParams ''Invalid parameters''), tr)
         else text_of_list (getAcquisitions up
                \<lparr>acq_company_name_or_id = string_or_undefined (get_prop args ''company_name_or_id''),
                 acq_limit = number_or_undefined (get_prop args ''limit'')\<rparr> tr))
      else if name = ''search_people'' then
        (if not_an_object args then (Inl (McpError InvalidParams ''Invalid parameters''), tr)
         else text_of_list (searchPeople up
                \<lparr>sp_query = string_or_undefined (get_prop args ''query''),
                 sp_company = string_or_undefined (get_prop args ''company''),
                 sp_title = string_or_undefined (get_prop args ''title''),
                 sp_limit = number_or_undefined (get_prop args ''limit'')\<rparr> tr))
      else (Inl (McpError MethodNotFound (''Unknown tool: '' @ name)), tr))"

text \<open>\<open>error instanceof Error ? error.message : 'Unknown error'\<close>\<close>

definition message_or_unknown :: "(error_code \<Rightarrow> string \<Rightarrow> string) \<Rightarrow> js_error \<Rightarrow> string" where
  "message_or_unknown fmt error =
     (if instanceof_Error error then message fmt error else ''Unknown error'')"

text \<open>
  The handler of a tool call: the \<open>try\<close> block is \<open>tool_switch\<close>, the \<open>catch\<close> block
  returns a result. The handler has no other way out, so its value is a result.
\<close>

definition call_tool :: "(error_code \<Rightarrow> string \<Rightarrow> string) \<Rightarrow> upstream \<Rightarrow> string \<Rightarrow> jsval option \<Rightarrow> trace \<Rightarrow> CallToolResult \<times> trace" where
  "call_tool fmt up name args tr =
     (case tool_switch up name args tr of
        (Inr t, tr1) \<Rightarrow> (tool_content t, tr1)
      | (Inl error, tr1) \<Rightarrow>
          (\<lparr>content = [Plain (message_or_unknown fmt error)], isError = Some True\<rparr>, tr1))"

text \<open>The \<open>try\<close> block of the resource handler, up to the text of the contents.\<close>

definition resource_switch :: "upstream \<Rightarrow> string \<Rightarrow> trace \<Rightarrow> (js_error + payload) \<times> trace" where
  "resource_switch up u tr =
     (if u = ''crunchbase://trending/companies'' then
        text_of_list (searchCompanies up
          \<lparr>sc_query = None, sc_location = None, sc_category = None, sc_founded_after = None,
           sc_founded_before = None, sc_status = None, sc_limit = Some (Num 10)\<rparr> tr)
      else
        (case match_companies [] u of
           Some companyMatch \<Rightarrow>
             (case decodeURIComponent companyMatch of
                None \<Rightarrow> (Inl (URIError ''URI malformed''), tr)
              | Some companyName \<Rightarrow>
                  text_of_entity (getCompanyDetails up \<lparr>name_or_id = companyName\<rparr> tr))
         | None \<Rightarrow>
        (case match_companies ''/funding'' u of
           Some fundingMatch \<Rightarrow>
             (case decodeURIComponent fundingMatch of
                None \<Rightarrow> (Inl (URIError ''URI malformed''), tr)
              | Some companyName \<Rightarrow>
                  text_of_list (getFundingRounds up
                    \<lparr>fr_company_name_or_id = companyName, fr_limit = None\<rparr> tr))
         | None \<Rightarrow>
        (case match_companies ''/acquisitions'' u of
           Some acquisitionsMatch \<Rightarrow>
             (case decodeURIComponent acquisitionsMatch of
                None \<Rightarrow> (Inl (URIError ''URI malformed''), tr)
              | Some companyName \<Rightarrow>
                  text_of_list (getAcquisitions up
                    \<lparr>acq_company_name_or_id = Some companyName, acq_limit = None\<rparr> tr))
         | None \<Rightarrow> (Inl (McpError InvalidRequest (''Invalid URI: '' @ u)), tr)))))"

text \<open>
  The handler of a resource read: \<open>Inl\<close> is the error it throws to the protocol
  library, \<open>Inr\<close> the contents it returns.
\<close>

definition read_resource :: "(error_code \<Rightarrow> string \<Rightarrow> string) \<Rightarrow> upstream \<Rightarrow> string \<Rightarrow> trace \<Rightarrow> (js_error + ResourceContents list) \<times> trace" where
  "read_resource fmt up u tr =
     (case resource_switch up u tr of
        (Inr t, tr1) \<Rightarrow> (Inr (resource_contents u t), tr1)
      | (Inl error, tr1) \<Rightarrow>
          if instanceof_McpError error then (Inl error, tr1)
          else (Inl (McpError InternalError (message_or_unknown fmt error)), tr1))"

section \<open>The query expression in the specification's words\<close>

text \<open>
  The filters that are present and non-empty, in the order given, and the expression
  that AND-s them onto a free-text term as clauses \<open>field:value\<close>. A field is written
  with its colon and, for the two date bounds, its comparison.
\<close>

definition present :: "(string \<times> string option) list \<Rightarrow> (string \<times> string) list" where
  "present fs =
     concat (map (\<lambda>(f, v). case v of None \<Rightarrow> [] | Some s \<Rightarrow> if s \<noteq> [] then [(f, s)] else []) fs)"

definition and_clauses :: "string \<Rightarrow> (string \<times> string) list \<Rightarrow> string" where
  "and_clauses term cs = term @ concat (map (\<lambda>(f, s). '' AND '' @ f @ s) cs)"

definition spec_companies_query :: "SearchCompaniesInput \<Rightarrow> string" where
  "spec_companies_query p =
     and_clauses (or_empty (sc_query p))
       (present [(''location:'', sc_location p),
                 (''category:'', sc_category p),
                 (''founded_on:>='', sc_founded_after p),
                 (''founded_on:<='', sc_founded_before p),
                 (''status:'', sc_status p)])"

definition spec_people_query :: "SearchPeopleInput \<Rightarrow> string" where
  "spec_people_query p =
     and_clauses (or_empty (sp_query p))
       (present [(''featured_job_organization_name:'', sp_company p),
                 (''featured_job_title:'', sp_title p)])"

section \<open>Sample inputs\<close>

text \<open>
  Upstreams and arguments on which the theorems below are instantiated. \<open>mcp_message\<close>
  is the message construction of the protocol library's \<open>McpError\<close>:
  \<open>MCP error ${code}: ${message}\<close>.
\<close>

definition scenario_args :: "jsval option" where
  "scenario_args =
     Some (JObject [(''query'', JString ''AI''), (''location'', JString ''San Francisco''),
                    (''limit'', JNumber (Num 5))])"

definition http_failure :: "nat \<Rightarrow> string option \<Rightarrow> axios_error" where
  "http_failure s m =
     \<lparr>response = Some \<lparr>status = s, data_message = m\<rparr>,
      ax_message = ''Request failed with status code '' @ string_of_nat s\<rparr>"

definition no_results :: upstream where
  "no_results =
     \<lparr>list_endpoint = (\<lambda>tr rq. Inr \<lparr>data = [], count = Num 0, total_count = Num 0\<rparr>),
      entity_endpoint = (\<lambda>tr rq. Inl (http_failure 404 None))\<rparr>"

definition failing :: "axios_error \<Rightarrow> upstream" where
  "failing e = \<lparr>list_endpoint = (\<lambda>tr rq. Inl e), entity_endpoint = (\<lambda>tr rq. Inl e)\<rparr>"

definition one_company :: "entity \<Rightarrow> entity \<Rightarrow> upstream" where
  "one_company found details =
     \<lparr>list_endpoint = (\<lambda>tr rq. Inr \<lparr>data = [found], count = Num 1, total_count = Num 1\<rparr>),
      entity_endpoint = (\<lambda>tr rq. Inr details)\<rparr>"

definition code_number :: "error_code \<Rightarrow> string" where
  "code_number c =
     (case c of
        InvalidRequest \<Rightarrow> ''-32600''
      | MethodNotFound \<Rightarrow> ''-32601''
      | InvalidParams \<Rightarrow> ''-32602''
      | InternalError \<Rightarrow> ''-32603'')"

definition mcp_message :: "error_code \<Rightarrow> string \<Rightarrow> string" where
  "mcp_message c m = ''MCP error '' @ code_number c @ '': '' @ m"

definition acme :: entity where
  "acme = \<lparr>uuid = ''c0ffee'', other_fields = [(''name'', JString ''Acme Inc'')]\<rparr>"

section \<open>Operations, failures and kinds of failure\<close>

text \<open>
  The five operations of the adapter under one name, with \<open>run\<close> giving the error an
  operation throws (if any) and the trace of HTTP exchanges after it.
\<close>

datatype operation =
    SearchCompanies SearchCompaniesInput
  | GetCompanyDetails GetCompanyDetailsInput
  | GetFundingRounds GetFundingRoundsInput
  | GetAcquisitions GetAcquisitionsInput
  | SearchPeople SearchPeopleInput

definition thrown :: "(js_error + 'a) \<times> trace \<Rightarrow> js_error option \<times> trace" where
  "thrown r = (case r of (Inl error, tr) \<Rightarrow> (Some error, tr) | (Inr v, tr) \<Rightarrow> (None, tr))"

fun run :: "upstream \<Rightarrow> operation \<Rightarrow> trace \<Rightarrow> js_error option \<times> trace" where
  "run up (SearchCompanies p) tr = thrown (searchCompanies up p tr)"
| "run up (GetCompanyDetails p) tr = thrown (getCompanyDetails up p tr)"
| "run up (GetFundingRounds p) tr = thrown (getFundingRounds up p tr)"
| "run up (GetAcquisitions p) tr = thrown (getAcquisitions up p tr)"
| "run up (SearchPeople p) tr = thrown (searchPeople up p tr)"

text \<open>A URI that the resource handler dispatches: the literal path or one of the templates.\<close>

definition matches_resource :: "string \<Rightarrow> bool" where
  "matches_resource u =
     (u = ''crunchbase://trending/companies''
      \<or> match_companies [] u \<noteq> None
      \<or> match_companies ''/funding'' u \<noteq> None
      \<or> match_companies ''/acquisitions'' u \<noteq> None)"

text \<open>
  The kinds of failure the specification names for an error of the HTTP client, and an
  error value with its message text blanked: what is left is everything else a caller
  could inspect.
\<close>

datatype failure_kind =
    AuthenticationFailure
  | NotFoundFailure
  | RateLimitFailure
  | UpstreamFailure
  | TransportFailure

definition kind_of :: "axios_error \<Rightarrow> failure_kind" where
  "kind_of e =
     (case response e of
        None \<Rightarrow> TransportFailure
      | Some r \<Rightarrow>
          if status r = 401 then AuthenticationFailure
          else if status r = 404 then NotFoundFailure
          else if status r = 429 then RateLimitFailure
          else UpstreamFailure)"

fun without_message :: "js_error \<Rightarrow> js_error" where
  "without_message (Error m) = Error []"
| "without_message (TypeError m) = TypeError []"
| "without_message (URIError m) = URIError []"
| "without_message (McpError c m) = McpError c []"
| "without_message (AxiosError e) = AxiosError (e\<lparr>ax_message := []\<rparr>)"
| "without_message NonError = NonError"

text \<open>
  \<open>reports err tr tr'\<close>: the trace grew from \<open>tr\<close> to \<open>tr'\<close>, and every exchange added
  that failed is accounted for by the error \<open>err\<close>, up to \<open>handleError\<close>.
\<close>

definition err_of :: "js_error + 'a \<Rightarrow> js_error option" where
  "err_of r = (case r of Inl error \<Rightarrow> Some error | Inr v \<Rightarrow> None)"

definition reports :: "js_error option \<Rightarrow> trace \<Rightarrow> trace \<Rightarrow> bool" where
  "reports err tr tr' =
     (\<exists>new. tr' = tr @ new \<and>
        (\<forall>x \<in> set new. \<forall>e. failure x = Some e \<longrightarrow>
           (\<exists>er. err = Some er \<and> handleError er = handleError (AxiosError e))))"

text \<open>A details response whose \<open>uuid\<close> is the empty string.\<close>

definition nameless :: entity where
  "nameless = \<lparr>uuid = [], other_fields = []\<rparr>"

section \<open>Auxiliary lemmas\<close>

lemma and_clauses_present_Cons:
  "and_clauses t (present ((f, v) # fs)) = and_clauses (append_filter t ('' AND '' @ f) v) (present fs)"
  by (simp add: and_clauses_def present_def append_filter_def split: option.splits)

lemma and_clauses_Nil: "and_clauses t (present []) = t"
  by (simp add: and_clauses_def present_def)

lemma companies_query_spec: "companies_query p = spec_companies_query p"
  unfolding companies_query_def spec_companies_query_def Let_def
  by (simp only: and_clauses_present_Cons and_clauses_Nil) simp

lemma people_query_spec: "people_query p = spec_people_query p"
  unfolding people_query_def spec_people_query_def Let_def
  by (simp only: and_clauses_present_Cons and_clauses_Nil) simp

lemma sent_get_list: "map sent (snd (get_list up rq tr)) = map sent tr @ [rq]"
  by (simp add: get_list_def record_exchange_def split: sum.splits)

lemma snd_rethrow_handled: "snd (rethrow_handled r) = snd r"
  by (simp add: rethrow_handled_def split: prod.splits sum.splits)

lemma snd_return_data: "snd (return_data r) = snd r"
  by (simp add: return_data_def split: prod.splits sum.splits)

lemma snd_text_of_list: "snd (text_of_list r) = snd r"
  by (simp add: text_of_list_def split: prod.splits sum.splits)

lemma snd_call_tool: "snd (call_tool fmt up name args tr) = snd (tool_switch up name args tr)"
  by (simp add: call_tool_def split: prod.splits sum.splits)

lemma handleError_instanceof_Error: "instanceof_Error (handleError x)"
  by (cases x) (simp_all add: handleError_def Let_def)

lemma handleError_McpError_iff: "instanceof_McpError (handleError x) = instanceof_McpError x"
  by (cases x) (simp_all add: handleError_def Let_def)

lemma handleError_AxiosError: "\<exists>m. handleError (AxiosError e) = Error m"
  by (simp add: handleError_def Let_def)

lemma handleError_idem: "handleError (handleError x) = handleError x"
proof (cases x)
  case (AxiosError e)
  obtain m where "handleError (AxiosError e) = Error m"
    using handleError_AxiosError by blast
  with AxiosError show ?thesis by (simp add: handleError_def)
qed (simp_all add: handleError_def)

lemma rethrow_handled_Inl:
  "rethrow_handled r = (Inl e, tr') \<Longrightarrow> \<exists>x. r = (Inl x, tr') \<and> e = handleError x"
  by (auto simp: rethrow_handled_def split: prod.splits sum.splits)

lemma getCompanyDetails_error:
  "getCompanyDetails up p tr = (Inl e, tr') \<Longrightarrow> instanceof_Error e \<and> \<not> instanceof_McpError e"
  by (auto simp: getCompanyDetails_def getCompanyDetails_try_def get_list_def get_entity_def
      record_exchange_def Let_def handleError_instanceof_Error handleError_McpError_iff
      dest!: rethrow_handled_Inl split: prod.splits sum.splits if_splits list.splits)

lemma searchCompanies_error:
  "searchCompanies up p tr = (Inl e, tr') \<Longrightarrow> instanceof_Error e \<and> \<not> instanceof_McpError e"
  by (auto simp: searchCompanies_def return_data_def get_list_def
      record_exchange_def handleError_instanceof_Error handleError_McpError_iff
      dest!: rethrow_handled_Inl split: prod.splits sum.splits)

lemma searchPeople_error:
  "searchPeople up p tr = (Inl e, tr') \<Longrightarrow> instanceof_Error e \<and> \<not> instanceof_McpError e"
  by (auto simp: searchPeople_def return_data_def get_list_def
      record_exchange_def handleError_instanceof_Error handleError_McpError_iff
      dest!: rethrow_handled_Inl split: prod.splits sum.splits)

lemma getFundingRounds_error:
  "getFundingRounds up p tr = (Inl e, tr') \<Longrightarrow> instanceof_Error e \<and> \<not> instanceof_McpError e"
  by (auto simp: getFundingRounds_def return_data_def get_list_def
      record_exchange_def handleError_instanceof_Error handleError_McpError_iff
      dest!: rethrow_handled_Inl getCompanyDetails_error split: prod.splits sum.splits)

lemma getAcquisitions_error:
  "getAcquisitions up p tr = (Inl e, tr') \<Longrightarrow> instanceof_Error e \<and> \<not> instanceof_McpError e"
  by (auto simp: getAcquisitions_def acquisitions_companyId_def return_data_def get_list_def
      record_exchange_def handleError_instanceof_Error handleError_McpError_iff
      dest!: rethrow_handled_Inl getCompanyDetails_error
      split: prod.splits sum.splits option.splits if_splits)

lemma text_of_list_Inl: "text_of_list r = (Inl e, tr') \<Longrightarrow> r = (Inl e, tr')"
  by (auto simp: text_of_list_def split: prod.splits sum.splits)

lemma text_of_entity_Inl: "text_of_entity r = (Inl e, tr') \<Longrightarrow> r = (Inl e, tr')"
  by (auto simp: text_of_entity_def split: prod.splits sum.splits)

lemma tool_switch_error:
  "tool_switch up name args tr = (Inl e, tr') \<Longrightarrow> instanceof_Error e"
  by (auto simp: tool_switch_def
      dest!: text_of_list_Inl text_of_entity_Inl
      dest: searchCompanies_error getCompanyDetails_error getFundingRounds_error
        getAcquisitions_error searchPeople_error
      split: if_splits option.splits)

lemma required_string_None:
  "typeof (get_prop args k) \<noteq> T_string \<Longrightarrow> required_string args k = None"
  by (simp add: required_string_def)

lemma or_10_falsy: "\<not> truthy_num l \<Longrightarrow> or_10 (Some l) = Num 10"
  by (simp add: or_10_def)

lemma getCompanyDetails_one_company:
  "getCompanyDetails (one_company found details) \<lparr>name_or_id = n\<rparr> tr =
     (Inr details,
      tr @ [\<lparr>sent = \<lparr>url = ''/searches/organizations'',
                        params = [(''query'', PString n), (''limit'', PNumber (Num 1))]\<rparr>,
              failure = None\<rparr>,
            \<lparr>sent = \<lparr>url = ''/entities/organizations/'' @ uuid found, params = []\<rparr>,
              failure = None\<rparr>])"
  by (simp add: getCompanyDetails_def getCompanyDetails_try_def get_list_def get_entity_def
      record_exchange_def rethrow_handled_def one_company_def)

lemma match_companies_unique:
  "match_companies sfx u = Some seg \<Longrightarrow>
   match_companies sfx' u = (if sfx' = sfx then Some seg else None)"
  by (auto simp: match_companies_def Let_def split: option.splits if_splits)

lemma match_companies_trending: "match_companies sfx ''crunchbase://trending/companies'' = None"
  by (simp add: match_companies_def)

lemma match_companies_not_trending:
  "match_companies sfx u = Some seg \<Longrightarrow> u \<noteq> ''crunchbase://trending/companies''"
  using match_companies_trending by force

lemma reports_record_exchange:
  "record_exchange rq answer tr = (res, tr') \<Longrightarrow> reports (err_of res) tr tr'"
  by (cases answer) (auto simp: reports_def record_exchange_def err_of_def)

lemma reports_handled:
  "reports (Some er) tr tr' \<Longrightarrow> reports (Some (handleError er)) tr tr'"
  by (auto simp: reports_def handleError_idem)

lemma reports_None_unfold:
  "reports None tr tr' = (\<exists>new. tr' = tr @ new \<and> (\<forall>x \<in> set new. failure x = None))"
  by (auto simp: reports_def)

lemma reports_local: "reports None tr tr' \<Longrightarrow> reports err tr tr'"
  by (auto simp: reports_def)

lemma reports_then: "reports None tr tr1 \<Longrightarrow> reports err tr1 tr2 \<Longrightarrow> reports err tr tr2"
  unfolding reports_None_unfold
proof -
  assume "\<exists>new. tr1 = tr @ new \<and> (\<forall>x \<in> set new. failure x = None)" and 2: "reports err tr1 tr2"
  then obtain new1 where n1: "tr1 = tr @ new1" "\<forall>x \<in> set new1. failure x = None" by blast
  from 2 obtain new2 where n2: "tr2 = tr1 @ new2"
    "\<forall>x \<in> set new2. \<forall>e. failure x = Some e \<longrightarrow>
           (\<exists>er. err = Some er \<and> handleError er = handleError (AxiosError e))"
    by (auto simp: reports_def)
  show ?thesis
    unfolding reports_def
    by (rule exI [of _ "new1 @ new2"]) (use n1 n2 in auto)
qed

lemma reports_get_list: "get_list up rq tr = (res, tr') \<Longrightarrow> reports (err_of res) tr tr'"
  unfolding get_list_def by (rule reports_record_exchange)

lemma reports_get_entity: "get_entity up rq tr = (res, tr') \<Longrightarrow> reports (err_of res) tr tr'"
  unfolding get_entity_def by (rule reports_record_exchange)

lemma err_of_simps [simp]: "err_of (Inl e) = Some e" "err_of (Inr v) = None"
  by (simp_all add: err_of_def)

lemma reports_searchCompanies:
  "searchCompanies up p tr = (res, tr') \<Longrightarrow> reports (err_of res) tr tr'"
  by (auto simp: searchCompanies_def rethrow_handled_def return_data_def
      split: prod.splits sum.splits dest!: reports_get_list intro: reports_handled)

lemma reports_searchPeople:
  "searchPeople up p tr = (res, tr') \<Longrightarrow> reports (err_of res) tr tr'"
  by (auto simp: searchPeople_def rethrow_handled_def return_data_def
      split: prod.splits sum.splits dest!: reports_get_list intro: reports_handled)

lemma reports_getCompanyDetails:
  "getCompanyDetails up p tr = (res, tr') \<Longrightarrow> reports (err_of res) tr tr'"
  by (auto simp: getCompanyDetails_def getCompanyDetails_try_def rethrow_handled_def Let_def
      split: prod.splits sum.splits if_splits list.splits
      dest!: reports_get_list reports_get_entity
      intro: reports_handled reports_local reports_then
      ; blast intro: reports_handled reports_local reports_then)

lemma reports_getFundingRounds:
  "getFundingRounds up p tr = (res, tr') \<Longrightarrow> reports (err_of res) tr tr'"
  by (auto simp: getFundingRounds_def rethrow_handled_def return_data_def
      split: prod.splits sum.splits
      dest!: reports_get_list reports_getCompanyDetails
      intro: reports_handled reports_local reports_then
      ; blast intro: reports_handled reports_local reports_then)

lemma reports_getAcquisitions:
  "getAcquisitions up p tr = (res, tr') \<Longrightarrow> reports (err_of res) tr tr'"
  by (auto simp: getAcquisitions_def acquisitions_companyId_def rethrow_handled_def return_data_def
      split: prod.splits sum.splits option.splits if_splits
      dest!: reports_get_list reports_getCompanyDetails
      intro: reports_handled reports_local reports_then
      ; blast intro: reports_handled reports_local reports_then)

lemma thrown_eq: "thrown r = (err_of (fst r), snd r)"
  by (cases r; cases "fst r") (auto simp: thrown_def)

lemma reports_run: "run up op tr = (r, tr') \<Longrightarrow> reports r tr tr'"
  by (cases op)
    (auto simp: thrown_eq
      intro: reports_searchCompanies reports_getCompanyDetails reports_getFundingRounds
        reports_getAcquisitions reports_searchPeople prod.collapse [symmetric])

lemma handleError_fixed:
  "run up op tr = (Some err, tr') \<Longrightarrow> handleError err = err"
  by (cases op)
    (auto simp: thrown_def searchCompanies_def getCompanyDetails_def getFundingRounds_def
        getAcquisitions_def searchPeople_def rethrow_handled_def handleError_idem
      split: prod.splits sum.splits)

lemma handleError_by_status:
  "response e = Some rsp \<Longrightarrow>
   handleError (AxiosError e) =
     (if status rsp = 401 then Error ''Unauthorized: Invalid API key''
      else if status rsp = 404 then Error ''Not found: The requested resource does not exist''
      else if status rsp = 429 then Error ''Rate limit exceeded: Too many requests''
      else Error (''Crunchbase API error ('' @ string_of_nat (status rsp) @ ''): '' @
             (case data_message rsp of
                None \<Rightarrow> ax_message e
              | Some m \<Rightarrow> if m \<noteq> [] then m else ax_message e)))"
  by (simp add: handleError_def Let_def render_status_def upstream_message_def)

lemma string_of_nat_500: "string_of_nat 500 = ''500''"
  by code_simp

lemma text_of_list_Inr: "text_of_list r = (Inr t, tr') \<Longrightarrow> \<exists>xs. t = Stringify_list xs"
  by (auto simp: text_of_list_def split: prod.splits sum.splits)

lemma text_of_entity_Inr: "text_of_entity r = (Inr t, tr') \<Longrightarrow> \<exists>x. t = Stringify_entity x"
  by (auto simp: text_of_entity_def split: prod.splits sum.splits)

lemma resource_switch_Inr: "resource_switch up u tr = (Inr t, tr') \<Longrightarrow> t \<noteq> Plain m"
  by (auto simp: resource_switch_def split: if_splits option.splits
      dest!: text_of_list_Inr text_of_entity_Inr)

lemma resource_switch_unmatched:
  "\<not> matches_resource u \<Longrightarrow>
   resource_switch up u tr = (Inl (McpError InvalidRequest (''Invalid URI: '' @ u)), tr)"
  by (simp add: matches_resource_def resource_switch_def)

lemma resource_switch_matched_error:
  "matches_resource u \<Longrightarrow> resource_switch up u tr = (Inl error, tr') \<Longrightarrow>
   instanceof_Error error \<and> \<not> instanceof_McpError error"
  by (auto simp: matches_resource_def resource_switch_def
      split: if_splits option.splits
      dest!: text_of_list_Inl text_of_entity_Inl
      dest: searchCompanies_error getCompanyDetails_error getFundingRounds_error
        getAcquisitions_error)

lemma digit_not_u: "n < 10 \<Longrightarrow> char_of (48 + n :: nat) \<noteq> CHR ''u''"
  by (simp add: char_of_eq_iff take_bit_eq_mod)

lemma string_of_nat_head: "\<exists>d ds. string_of_nat n = d # ds \<and> d \<noteq> CHR ''u''"
proof (induction n rule: string_of_nat.induct)
  case (1 n)
  show ?case
  proof (cases "n < 10")
    case True
    then show ?thesis
      using digit_not_u [OF True] by (subst string_of_nat.simps) simp
  next
    case False
    with "1.IH" obtain d ds where "string_of_nat (n div 10) = d # ds" "d \<noteq> CHR ''u''"
      by blast
    with False show ?thesis
      by (subst string_of_nat.simps) simp
  qed
qed

lemma status_not_undefined: "string_of_nat n @ a \<noteq> ''undefined'' @ b"
proof -
  obtain d ds where "string_of_nat n = d # ds" "d \<noteq> CHR ''u''"
    using string_of_nat_head by blast
  then show ?thesis by simp
qed

lemma handleError_message_by_kind:
  "message fmt (handleError (AxiosError e)) =
     (case kind_of e of
        AuthenticationFailure \<Rightarrow> ''Unauthorized: Invalid API key''
      | NotFoundFailure \<Rightarrow> ''Not found: The requested resource does not exist''
      | RateLimitFailure \<Rightarrow> ''Rate limit exceeded: Too many requests''
      | UpstreamFailure \<Rightarrow>
          ''Crunchbase API error ('' @ string_of_nat (status (the (response e))) @ ''): '' @ upstream_message e
      | TransportFailure \<Rightarrow> ''Crunchbase API error (undefined): '' @ upstream_message e)"
  by (cases "response e") (simp_all add: handleError_def kind_of_def Let_def render_status_def)

lemma sent_get_entity: "map sent (snd (get_entity up rq tr)) = map sent tr @ [rq]"
  by (simp add: get_entity_def record_exchange_def split: sum.splits)

lemma sent_get_list_eq: "get_list up rq tr = (r, tr') \<Longrightarrow> map sent tr' = map sent tr @ [rq]"
  using sent_get_list [of up rq tr] by simp

lemma sent_get_entity_eq: "get_entity up rq tr = (r, tr') \<Longrightarrow> map sent tr' = map sent tr @ [rq]"
  using sent_get_entity [of up rq tr] by simp

lemma getCompanyDetails_requests:
  assumes "getCompanyDetails up \<lparr>name_or_id = n\<rparr> tr = (Inr company, tr1)"
  shows "\<exists>found :: entity. map sent tr1 = map sent tr @
           [\<lparr>url = ''/searches/organizations'',
             params = [(''query'', PString n), (''limit'', PNumber (Num 1))]\<rparr>,
            \<lparr>url = ''/entities/organizations/'' @ uuid found, params = []\<rparr>]"
proof -
  let ?rq = "\<lparr>url = ''/searches/organizations'',
             params = [(''query'', PString n), (''limit'', PNumber (Num 1))]\<rparr>"
  from assms have body: "getCompanyDetails_try up \<lparr>name_or_id = n\<rparr> tr = (Inr company, tr1)"
    by (auto simp: getCompanyDetails_def rethrow_handled_def split: prod.splits sum.splits)
  obtain r tr0 where search: "get_list up ?rq tr = (r, tr0)"
    by (cases "get_list up ?rq tr")
  then have tr0: "map sent tr0 = map sent tr @ [?rq]"
    by (rule sent_get_list_eq)
  show ?thesis
  proof (cases r)
    case (Inl error)
    with body search show ?thesis by (simp add: getCompanyDetails_try_def)
  next
    case (Inr resp)
    show ?thesis
    proof (cases "data resp")
      case Nil
      with Inr body search show ?thesis
        by (simp add: getCompanyDetails_try_def split: if_splits)
    next
      case (Cons first rest)
      with Inr body search
      have "get_entity up \<lparr>url = ''/entities/organizations/'' @ uuid first, params = []\<rparr> tr0 =
       (Inr company, tr1)"
        by (simp add: getCompanyDetails_try_def Let_def split: if_splits)
      then have "map sent tr1 = map sent tr0 @
          [\<lparr>url = ''/entities/organizations/'' @ uuid first, params = []\<rparr>]"
        by (rule sent_get_entity_eq)
      with tr0 have last: "map sent tr1 = map sent tr @
           [?rq, \<lparr>url = ''/entities/organizations/'' @ uuid first, params = []\<rparr>]"
        by simp
      show ?thesis
        by (rule exI, rule last)
    qed
  qed
qed

lemma getCompanyDetails_error_fixed:
  "getCompanyDetails up p tr = (Inl error, tr1) \<Longrightarrow> handleError error = error"
  by (auto simp: getCompanyDetails_def handleError_idem dest!: rethrow_handled_Inl)

text \<open>
  The matcher agrees with the regular expressions: it returns \<open>name\<close> exactly when the
  URI is the prefix, a non-empty \<open>name\<close> without a slash, and the suffix.
\<close>

lemma strip_prefix_iff: "strip_prefix p u = Some r \<longleftrightarrow> u = p @ r"
  by (induction p u rule: strip_prefix.induct) auto

lemma match_companies_iff:
  assumes "sfx = [] \<or> hd sfx = CHR ''/''"
  shows "match_companies sfx u = Some name \<longleftrightarrow>
           u = ''crunchbase://companies/'' @ name @ sfx \<and> name \<noteq> [] \<and> CHR ''/'' \<notin> set name"
proof
  assume "match_companies sfx u = Some name"
  then obtain rest where rest: "strip_prefix ''crunchbase://companies/'' u = Some rest"
    and name: "name = takeWhile (\<lambda>c. c \<noteq> CHR ''/'') rest" "name \<noteq> []"
    and sfx: "sfx = dropWhile (\<lambda>c. c \<noteq> CHR ''/'') rest"
    by (auto simp: match_companies_def Let_def split: option.splits if_splits)
  from name(1) have "CHR ''/'' \<notin> set name"
    by (auto dest: set_takeWhileD)
  moreover from name(1) sfx have "rest = name @ sfx"
    by simp
  moreover from rest have "u = ''crunchbase://companies/'' @ rest"
    by (simp only: strip_prefix_iff)
  ultimately show "u = ''crunchbase://companies/'' @ name @ sfx \<and> name \<noteq> [] \<and> CHR ''/'' \<notin> set name"
    using name(2) by simp
next
  assume r: "u = ''crunchbase://companies/'' @ name @ sfx \<and> name \<noteq> [] \<and> CHR ''/'' \<notin> set name"
  then have rest: "strip_prefix ''crunchbase://companies/'' u = Some (name @ sfx)"
    by (simp only: strip_prefix_iff)
  from r have all: "\<forall>c \<in> set name. c \<noteq> CHR ''/''" by auto
  from assms have stop: "sfx = [] \<or> \<not> (hd sfx \<noteq> CHR ''/'')" by simp
  have t: "takeWhile (\<lambda>c. c \<noteq> CHR ''/'') (name @ sfx) = name"
    using all stop by (cases sfx) (simp_all add: takeWhile_append2)
  have d: "dropWhile (\<lambda>c. c \<noteq> CHR ''/'') (name @ sfx) = sfx"
    using all stop by (cases sfx) (simp_all add: dropWhile_append2)
  from r have ne: "name \<noteq> []" by simp
  show "match_companies sfx u = Some name"
    unfolding match_companies_def rest by (simp add: t d ne)
qed

text \<open>Every operation of the adapter sends at least one request.\<close>

lemma length_record_exchange:
  "length (snd (record_exchange rq answer tr)) = Suc (length tr)"
  by (cases answer) (simp_all add: record_exchange_def)

lemma get_list_longer: "get_list up rq tr = (r, tr') \<Longrightarrow> length tr < length tr'"
  using length_record_exchange [of rq "list_endpoint up tr rq" tr] by (simp add: get_list_def)

lemma get_entity_longer: "get_entity up rq tr = (r, tr') \<Longrightarrow> length tr < length tr'"
  using length_record_exchange [of rq "entity_endpoint up tr rq" tr] by (simp add: get_entity_def)

lemma getCompanyDetails_longer:
  "getCompanyDetails up p tr = (r, tr') \<Longrightarrow> length tr < length tr'"
  by (auto simp: getCompanyDetails_def getCompanyDetails_try_def rethrow_handled_def Let_def
      split: prod.splits sum.splits if_splits list.splits
      dest!: get_list_longer get_entity_longer)

lemma run_sends_a_request: "run up op tr = (r, tr') \<Longrightarrow> length tr < length tr'"
  by (cases op)
    (auto simp: thrown_def searchCompanies_def searchPeople_def getFundingRounds_def
        getAcquisitions_def acquisitions_companyId_def rethrow_handled_def return_data_def
      split: prod.splits sum.splits option.splits if_splits
      dest!: get_list_longer getCompanyDetails_longer)

text \<open>
  Reading \<open>crunchbase://companies/Acme%20Inc/funding\<close> decodes the name to \<open>Acme Inc\<close>,
  resolves the company and returns its funding rounds.
\<close>

lemma funding_scenario:
  "read_resource fmt (one_company acme acme) ''crunchbase://companies/Acme%20Inc/funding'' [] =
     (Inr [\<lparr>uri = ''crunchbase://companies/Acme%20Inc/funding'', mimeType = ''application/json'',
            contents_text = Stringify_list [acme]\<rparr>],
      [\<lparr>sent = \<lparr>url = ''/searches/organizations'',
                   params = [(''query'', PString ''Acme Inc''), (''limit'', PNumber (Num 1))]\<rparr>,
         failure = None\<rparr>,
       \<lparr>sent = \<lparr>url = ''/entities/organizations/c0ffee'', params = []\<rparr>, failure = None\<rparr>,
       \<lparr>sent = \<lparr>url = ''/entities/organizations/c0ffee/funding_rounds'',
                   params = [(''limit'', PNumber (Num 10)), (''order'', PString ''announced_on DESC'')]\<rparr>,
         failure = None\<rparr>])"
proof -
  have m0: "match_companies [] ''crunchbase://companies/Acme%20Inc/funding'' = None"
    by (simp add: match_companies_def)
  have m1: "match_companies ''/funding'' ''crunchbase://companies/Acme%20Inc/funding'' = Some ''Acme%20Inc''"
    by (simp add: match_companies_def)
  have d: "decodeURIComponent ''Acme%20Inc'' = Some ''Acme Inc''"
    by code_simp
  have sw: "resource_switch (one_company acme acme) ''crunchbase://companies/Acme%20Inc/funding'' [] =
      text_of_list (getFundingRounds (one_company acme acme)
        \<lparr>fr_company_name_or_id = ''Acme Inc'', fr_limit = None\<rparr> [])"
    by (simp add: resource_switch_def m0 m1 d del: decodeURIComponent.simps)
  have fr: "getFundingRounds (one_company acme acme)
        \<lparr>fr_company_name_or_id = ''Acme Inc'', fr_limit = None\<rparr> [] =
     (Inr [acme],
      [\<lparr>sent = \<lparr>url = ''/searches/organizations'',
                   params = [(''query'', PString ''Acme Inc''), (''limit'', PNumber (Num 1))]\<rparr>,
         failure = None\<rparr>,
       \<lparr>sent = \<lparr>url = ''/entities/organizations/c0ffee'', params = []\<rparr>, failure = None\<rparr>,
       \<lparr>sent = \<lparr>url = ''/entities/organizations/c0ffee/funding_rounds'',
                   params = [(''limit'', PNumber (Num 10)), (''order'', PString ''announced_on DESC'')]\<rparr>,
         failure = None\<rparr>])"
    by (simp add: getFundingRounds_def getCompanyDetails_one_company)
      (simp add: rethrow_handled_def return_data_def get_list_def record_exchange_def
        one_company_def or_10_def acme_def)
  show ?thesis
    by (simp add: read_resource_def sw fr text_of_list_def resource_contents_def)
qed

section \<open>Search queries\<close>

text \<open>
  C1. Company and people search each send one request whose query is the free-text term
  with exactly the present, non-empty filters AND-ed onto it as \<open>field:value\<close> clauses, in
  the fixed order location, category, founded-after, founded-before, status (company,
  title for people); absent and empty filters leave no trace. The tool call
  \<open>search_companies({query: "AI", location: "San Francisco", limit: 5})\<close> sends the query
  \<open>AI AND location:San Francisco\<close> with limit 5 and order \<open>rank DESC\<close>.
\<close>

theorem search_query_conjoins_present_filters:
  "map sent (snd (searchCompanies up p tr)) =
     map sent tr @
     [\<lparr>url = ''/searches/organizations'',
       params = [(''query'', PString (spec_companies_query p)),
                 (''limit'', PNumber (or_10 (sc_limit p))),
                 (''order'', PString ''rank DESC'')]\<rparr>]
   \<and> map sent (snd (searchPeople up q tr)) =
     map sent tr @
     [\<lparr>url = ''/searches/people'',
       params = [(''query'', PString (spec_people_query q)),
                 (''limit'', PNumber (or_10 (sp_limit q))),
                 (''order'', PString ''rank DESC'')]\<rparr>]
   \<and> map sent (snd (call_tool fmt up ''search_companies'' scenario_args [])) =
     [\<lparr>url = ''/searches/organizations'',
       params = [(''query'', PString ''AI AND location:San Francisco''),
                 (''limit'', PNumber (Num 5)),
                 (''order'', PString ''rank DESC'')]\<rparr>]"
proof (intro conjI)
  show "map sent (snd (searchCompanies up p tr)) =
     map sent tr @
     [\<lparr>url = ''/searches/organizations'',
       params = [(''query'', PString (spec_companies_query p)),
                 (''limit'', PNumber (or_10 (sc_limit p))),
                 (''order'', PString ''rank DESC'')]\<rparr>]"
    by (simp add: searchCompanies_def snd_rethrow_handled snd_return_data sent_get_list
        companies_query_spec)
  show "map sent (snd (searchPeople up q tr)) =
     map sent tr @
     [\<lparr>url = ''/searches/people'',
       params = [(''query'', PString (spec_people_query q)),
                 (''limit'', PNumber (or_10 (sp_limit q))),
                 (''order'', PString ''rank DESC'')]\<rparr>]"
    by (simp add: searchPeople_def snd_rethrow_handled snd_return_data sent_get_list
        people_query_spec)
  show "map sent (snd (call_tool fmt up ''search_companies'' scenario_args [])) =
     [\<lparr>url = ''/searches/organizations'',
       params = [(''query'', PString ''AI AND location:San Francisco''),
                 (''limit'', PNumber (Num 5)),
                 (''order'', PString ''rank DESC'')]\<rparr>]"
    by (simp add: snd_call_tool tool_switch_def scenario_args_def not_an_object_def
        snd_text_of_list searchCompanies_def snd_rethrow_handled snd_return_data sent_get_list
        companies_query_def append_filter_def or_empty_def or_10_def truthy_num_def)
qed

theorem search_query_conjoins_present_filters_witness:
  "map sent (snd (searchCompanies no_results
       \<lparr>sc_query = Some ''AI'', sc_location = Some ''San Francisco'', sc_category = None,
        sc_founded_after = Some [], sc_founded_before = Some ''2020-01-01'', sc_status = None,
        sc_limit = Some (Num 5)\<rparr> [])) =
     [\<lparr>url = ''/searches/organizations'',
       params = [(''query'', PString ''AI AND location:San Francisco AND founded_on:<=2020-01-01''),
                 (''limit'', PNumber (Num 5)),
                 (''order'', PString ''rank DESC'')]\<rparr>]
   \<and> map sent (snd (searchPeople no_results
       \<lparr>sp_query = None, sp_company = Some ''Acme'', sp_title = Some ''CEO'', sp_limit = None\<rparr> [])) =
     [\<lparr>url = ''/searches/people'',
       params = [(''query'', PString '' AND featured_job_organization_name:Acme AND featured_job_title:CEO''),
                 (''limit'', PNumber (Num 10)),
                 (''order'', PString ''rank DESC'')]\<rparr>]"
  using search_query_conjoins_present_filters
    [of no_results
        "\<lparr>sc_query = Some ''AI'', sc_location = Some ''San Francisco'', sc_category = None,
         sc_founded_after = Some [], sc_founded_before = Some ''2020-01-01'', sc_status = None,
         sc_limit = Some (Num 5)\<rparr>"
        "[]"
        "\<lparr>sp_query = None, sp_company = Some ''Acme'', sp_title = Some ''CEO'', sp_limit = None\<rparr>"
        mcp_message]
  by (simp add: spec_companies_query_def spec_people_query_def and_clauses_def present_def
      or_empty_def or_10_def truthy_num_def)

section \<open>Company resolution\<close>

text \<open>
  C3. For every input string \<open>s\<close>: when the resolution search of \<open>getCompanyDetails\<close>
  answers with a count of zero, the operation fails with the error
  \<open>Company not found: s\<close>, after that one request and without fetching any entity, so no
  Company value is returned; the tool \<open>get_company_details\<close> reports the same message.
\<close>

theorem company_not_found_on_zero_results:
  assumes "list_endpoint up tr
             \<lparr>url = ''/searches/organizations'',
              params = [(''query'', PString s), (''limit'', PNumber (Num 1))]\<rparr> = Inr resp"
    and "count resp = Num 0"
  shows "getCompanyDetails up \<lparr>name_or_id = s\<rparr> tr =
           (Inl (Error (''Company not found: '' @ s)),
            tr @ [\<lparr>sent = \<lparr>url = ''/searches/organizations'',
                            params = [(''query'', PString s), (''limit'', PNumber (Num 1))]\<rparr>,
                    failure = None\<rparr>])
         \<and> call_tool fmt up ''get_company_details'' (Some (JObject [(''name_or_id'', JString s)])) tr =
           (\<lparr>content = [Plain (''Company not found: '' @ s)], isError = Some True\<rparr>,
            tr @ [\<lparr>sent = \<lparr>url = ''/searches/organizations'',
                            params = [(''query'', PString s), (''limit'', PNumber (Num 1))]\<rparr>,
                    failure = None\<rparr>])"
proof -
  have details: "getCompanyDetails up \<lparr>name_or_id = s\<rparr> tr =
           (Inl (Error (''Company not found: '' @ s)),
            tr @ [\<lparr>sent = \<lparr>url = ''/searches/organizations'',
                            params = [(''query'', PString s), (''limit'', PNumber (Num 1))]\<rparr>,
                    failure = None\<rparr>])"
    using assms
    by (simp add: getCompanyDetails_def getCompanyDetails_try_def get_list_def
        record_exchange_def rethrow_handled_def handleError_def)
  have guard: "required_string (Some (JObject [(''name_or_id'', JString s)])) ''name_or_id'' = Some s"
    by (simp add: required_string_def not_an_object_def)
  show ?thesis
    by (simp add: details call_tool_def tool_switch_def guard text_of_entity_def
        message_or_unknown_def)
qed

theorem company_not_found_on_zero_results_witness:
  "getCompanyDetails no_results \<lparr>name_or_id = ''OpenAI''\<rparr> [] =
     (Inl (Error ''Company not found: OpenAI''),
      [\<lparr>sent = \<lparr>url = ''/searches/organizations'',
                   params = [(''query'', PString ''OpenAI''), (''limit'', PNumber (Num 1))]\<rparr>,
         failure = None\<rparr>])
   \<and> call_tool mcp_message no_results ''get_company_details''
       (Some (JObject [(''name_or_id'', JString ''OpenAI'')])) [] =
     (\<lparr>content = [Plain ''Company not found: OpenAI''], isError = Some True\<rparr>,
      [\<lparr>sent = \<lparr>url = ''/searches/organizations'',
                   params = [(''query'', PString ''OpenAI''), (''limit'', PNumber (Num 1))]\<rparr>,
         failure = None\<rparr>])"
  using company_not_found_on_zero_results
    [of no_results "[]" "''OpenAI''" "\<lparr>data = [], count = Num 0, total_count = Num 0\<rparr>" mcp_message]
  by (simp add: no_results_def)

section \<open>Tool calls\<close>

text \<open>
  C5. When \<open>name_or_id\<close> (for \<open>get_company_details\<close>) or \<open>company_name_or_id\<close> (for
  \<open>get_funding_rounds\<close>) is absent or not a string, the \<open>try\<close> block raises the
  invalid-parameters error and the handler reports it, with the trace of HTTP exchanges
  unchanged: no request was sent and no adapter operation ran.
\<close>

theorem missing_required_argument_rejected_before_any_call:
  "(typeof (get_prop args ''name_or_id'') \<noteq> T_string \<longrightarrow>
      tool_switch up ''get_company_details'' args tr =
        (Inl (McpError InvalidParams ''Missing or invalid name_or_id parameter''), tr)
      \<and> call_tool fmt up ''get_company_details'' args tr =
        (\<lparr>content = [Plain (fmt InvalidParams ''Missing or invalid name_or_id parameter'')],
          isError = Some True\<rparr>, tr))
   \<and> (typeof (get_prop args ''company_name_or_id'') \<noteq> T_string \<longrightarrow>
      tool_switch up ''get_funding_rounds'' args tr =
        (Inl (McpError InvalidParams ''Missing or invalid company_name_or_id parameter''), tr)
      \<and> call_tool fmt up ''get_funding_rounds'' args tr =
        (\<lparr>content = [Plain (fmt InvalidParams ''Missing or invalid company_name_or_id parameter'')],
          isError = Some True\<rparr>, tr))"
proof (intro conjI impI)
  assume a: "typeof (get_prop args ''name_or_id'') \<noteq> T_string"
  show sw: "tool_switch up ''get_company_details'' args tr =
        (Inl (McpError InvalidParams ''Missing or invalid name_or_id parameter''), tr)"
    by (simp add: tool_switch_def required_string_None [OF a])
  show "call_tool fmt up ''get_company_details'' args tr =
        (\<lparr>content = [Plain (fmt InvalidParams ''Missing or invalid name_or_id parameter'')],
          isError = Some True\<rparr>, tr)"
    by (simp add: call_tool_def sw message_or_unknown_def)
next
  assume a: "typeof (get_prop args ''company_name_or_id'') \<noteq> T_string"
  show sw: "tool_switch up ''get_funding_rounds'' args tr =
        (Inl (McpError InvalidParams ''Missing or invalid company_name_or_id parameter''), tr)"
    by (simp add: tool_switch_def required_string_None [OF a])
  show "call_tool fmt up ''get_funding_rounds'' args tr =
        (\<lparr>content = [Plain (fmt InvalidParams ''Missing or invalid company_name_or_id parameter'')],
          isError = Some True\<rparr>, tr)"
    by (simp add: call_tool_def sw message_or_unknown_def)
qed

theorem missing_required_argument_rejected_before_any_call_witness:
  "call_tool mcp_message (one_company \<lparr>uuid = ''u1'', other_fields = []\<rparr> \<lparr>uuid = ''u1'', other_fields = []\<rparr>)
     ''get_company_details'' (Some (JObject [(''name_or_id'', JNumber (Num 42))])) [] =
     (\<lparr>content = [Plain ''MCP error -32602: Missing or invalid name_or_id parameter''],
       isError = Some True\<rparr>, [])
   \<and> call_tool mcp_message (one_company \<lparr>uuid = ''u1'', other_fields = []\<rparr> \<lparr>uuid = ''u1'', other_fields = []\<rparr>)
     ''get_funding_rounds'' (Some (JObject [(''limit'', JNumber (Num 3))])) [] =
     (\<lparr>content = [Plain ''MCP error -32602: Missing or invalid company_name_or_id parameter''],
       isError = Some True\<rparr>, [])"
proof -
  let ?up = "one_company \<lparr>uuid = ''u1'', other_fields = []\<rparr> \<lparr>uuid = ''u1'', other_fields = []\<rparr>"
  have a: "typeof (get_prop (Some (JObject [(''name_or_id'', JNumber (Num 42))])) ''name_or_id'') \<noteq> T_string"
    by simp
  have b: "typeof (get_prop (Some (JObject [(''limit'', JNumber (Num 3))])) ''company_name_or_id'') \<noteq> T_string"
    by simp
  from a missing_required_argument_rejected_before_any_call
         [of "Some (JObject [(''name_or_id'', JNumber (Num 42))])" ?up "[]" mcp_message]
  have 1: "call_tool mcp_message ?up ''get_company_details''
             (Some (JObject [(''name_or_id'', JNumber (Num 42))])) [] =
           (\<lparr>content = [Plain (mcp_message InvalidParams ''Missing or invalid name_or_id parameter'')],
             isError = Some True\<rparr>, [])"
    by blast
  from b missing_required_argument_rejected_before_any_call
         [of "Some (JObject [(''limit'', JNumber (Num 3))])" ?up "[]" mcp_message]
  have 2: "call_tool mcp_message ?up ''get_funding_rounds''
             (Some (JObject [(''limit'', JNumber (Num 3))])) [] =
           (\<lparr>content = [Plain (mcp_message InvalidParams ''Missing or invalid company_name_or_id parameter'')],
             isError = Some True\<rparr>, [])"
    by blast
  from 1 2 show ?thesis by (simp add: mcp_message_def code_number_def)
qed

text \<open>
  C6. Whatever error the \<open>try\<close> block of a tool call raises (an adapter error, an
  invalid-parameters error, an unknown-tool error), the handler returns a result whose
  only content is the error's message as text, with \<open>isError\<close> set. The handler's value
  is always a result.
\<close>

theorem tool_failure_returned_as_error_text:
  assumes "tool_switch up name args tr = (Inl error, tr')"
  shows "call_tool fmt up name args tr =
           (\<lparr>content = [Plain (message fmt error)], isError = Some True\<rparr>, tr')"
  using assms tool_switch_error [OF assms]
  by (simp add: call_tool_def message_or_unknown_def)

theorem tool_failure_returned_as_error_text_witness:
  "call_tool mcp_message (failing (http_failure 401 None)) ''search_people'' (Some (JObject [])) [] =
     (\<lparr>content = [Plain ''Unauthorized: Invalid API key''], isError = Some True\<rparr>,
      [\<lparr>sent = \<lparr>url = ''/searches/people'',
                   params = [(''query'', PString []), (''limit'', PNumber (Num 10)),
                             (''order'', PString ''rank DESC'')]\<rparr>,
         failure = Some (http_failure 401 None)\<rparr>])
   \<and> call_tool mcp_message no_results ''get_company_details'' None [] =
     (\<lparr>content = [Plain ''MCP error -32602: Missing or invalid name_or_id parameter''],
       isError = Some True\<rparr>, [])
   \<and> call_tool mcp_message no_results ''delete_company'' (Some (JObject [])) [] =
     (\<lparr>content = [Plain ''MCP error -32601: Unknown tool: delete_company''],
       isError = Some True\<rparr>, [])"
proof -
  have 1: "tool_switch (failing (http_failure 401 None)) ''search_people'' (Some (JObject [])) [] =
     (Inl (Error ''Unauthorized: Invalid API key''),
      [\<lparr>sent = \<lparr>url = ''/searches/people'',
                   params = [(''query'', PString []), (''limit'', PNumber (Num 10)),
                             (''order'', PString ''rank DESC'')]\<rparr>,
         failure = Some (http_failure 401 None)\<rparr>])"
    by (simp add: tool_switch_def not_an_object_def text_of_list_def searchPeople_def
        rethrow_handled_def return_data_def get_list_def record_exchange_def failing_def
        people_query_def append_filter_def or_empty_def or_10_def handleError_def
        http_failure_def)
  have 2: "tool_switch no_results ''get_company_details'' None [] =
     (Inl (McpError InvalidParams ''Missing or invalid name_or_id parameter''), [])"
    by (simp add: tool_switch_def required_string_def not_an_object_def)
  have 3: "tool_switch no_results ''delete_company'' (Some (JObject [])) [] =
     (Inl (McpError MethodNotFound ''Unknown tool: delete_company''), [])"
    by (simp add: tool_switch_def)
  show ?thesis
    using tool_failure_returned_as_error_text [OF 1, of mcp_message]
      tool_failure_returned_as_error_text [OF 2, of mcp_message]
      tool_failure_returned_as_error_text [OF 3, of mcp_message]
    by (simp add: mcp_message_def code_number_def)
qed

section \<open>Result limits\<close>

text \<open>
  C9. A falsy limit (\<open>0\<close> or \<open>NaN\<close>) is sent as \<open>10\<close> by \<open>searchCompanies\<close>,
  \<open>searchPeople\<close>, \<open>getFundingRounds\<close> and \<open>getAcquisitions\<close> (the latter two once the
  company has been resolved).
\<close>

theorem falsy_limit_replaced_by_default:
  assumes "\<not> truthy_num l"
  shows "map sent (snd (searchCompanies up (p\<lparr>sc_limit := Some l\<rparr>) tr)) =
           map sent tr @
           [\<lparr>url = ''/searches/organizations'',
             params = [(''query'', PString (companies_query p)),
                       (''limit'', PNumber (Num 10)),
                       (''order'', PString ''rank DESC'')]\<rparr>]
         \<and> map sent (snd (searchPeople up (q\<lparr>sp_limit := Some l\<rparr>) tr)) =
           map sent tr @
           [\<lparr>url = ''/searches/people'',
             params = [(''query'', PString (people_query q)),
                       (''limit'', PNumber (Num 10)),
                       (''order'', PString ''rank DESC'')]\<rparr>]
         \<and> (getCompanyDetails up \<lparr>name_or_id = n\<rparr> tr = (Inr company, tr1) \<longrightarrow>
              map sent (snd (getFundingRounds up \<lparr>fr_company_name_or_id = n, fr_limit = Some l\<rparr> tr)) =
              map sent tr1 @
              [\<lparr>url = ''/entities/organizations/'' @ uuid company @ ''/funding_rounds'',
                params = [(''limit'', PNumber (Num 10)),
                          (''order'', PString ''announced_on DESC'')]\<rparr>])
         \<and> (acquisitions_companyId up (a\<lparr>acq_limit := Some l\<rparr>) tr = (Inr companyId, tr2) \<longrightarrow>
              map sent (snd (getAcquisitions up (a\<lparr>acq_limit := Some l\<rparr>) tr)) =
              map sent tr2 @
              [\<lparr>url = ''/searches/acquisitions'',
                params = [(''query'', PString (acquisitions_query companyId)),
                          (''limit'', PNumber (Num 10)),
                          (''order'', PString ''announced_on DESC'')]\<rparr>])"
proof (intro conjI impI)
  show "map sent (snd (searchCompanies up (p\<lparr>sc_limit := Some l\<rparr>) tr)) =
           map sent tr @
           [\<lparr>url = ''/searches/organizations'',
             params = [(''query'', PString (companies_query p)),
                       (''limit'', PNumber (Num 10)),
                       (''order'', PString ''rank DESC'')]\<rparr>]"
    by (simp add: searchCompanies_def snd_rethrow_handled snd_return_data sent_get_list
        or_10_falsy [OF assms] companies_query_def)
  show "map sent (snd (searchPeople up (q\<lparr>sp_limit := Some l\<rparr>) tr)) =
           map sent tr @
           [\<lparr>url = ''/searches/people'',
             params = [(''query'', PString (people_query q)),
                       (''limit'', PNumber (Num 10)),
                       (''order'', PString ''rank DESC'')]\<rparr>]"
    by (simp add: searchPeople_def snd_rethrow_handled snd_return_data sent_get_list
        or_10_falsy [OF assms] people_query_def)
next
  assume "getCompanyDetails up \<lparr>name_or_id = n\<rparr> tr = (Inr company, tr1)"
  then show "map sent (snd (getFundingRounds up \<lparr>fr_company_name_or_id = n, fr_limit = Some l\<rparr> tr)) =
              map sent tr1 @
              [\<lparr>url = ''/entities/organizations/'' @ uuid company @ ''/funding_rounds'',
                params = [(''limit'', PNumber (Num 10)),
                          (''order'', PString ''announced_on DESC'')]\<rparr>]"
    by (simp add: getFundingRounds_def snd_rethrow_handled snd_return_data sent_get_list
        or_10_falsy [OF assms])
next
  assume "acquisitions_companyId up (a\<lparr>acq_limit := Some l\<rparr>) tr = (Inr companyId, tr2)"
  then show "map sent (snd (getAcquisitions up (a\<lparr>acq_limit := Some l\<rparr>) tr)) =
              map sent tr2 @
              [\<lparr>url = ''/searches/acquisitions'',
                params = [(''query'', PString (acquisitions_query companyId)),
                          (''limit'', PNumber (Num 10)),
                          (''order'', PString ''announced_on DESC'')]\<rparr>]"
    by (simp add: getAcquisitions_def snd_rethrow_handled snd_return_data sent_get_list
        acquisitions_request_def or_10_falsy [OF assms])
qed

theorem falsy_limit_replaced_by_default_witness:
  "map sent (snd (searchCompanies (one_company acme acme)
       \<lparr>sc_query = Some ''AI'', sc_location = None, sc_category = None, sc_founded_after = None,
        sc_founded_before = None, sc_status = None, sc_limit = Some (Num 0)\<rparr> [])) =
     [\<lparr>url = ''/searches/organizations'',
       params = [(''query'', PString ''AI''), (''limit'', PNumber (Num 10)),
                 (''order'', PString ''rank DESC'')]\<rparr>]
   \<and> map sent (snd (searchPeople (one_company acme acme)
       \<lparr>sp_query = Some ''Ada'', sp_company = None, sp_title = None, sp_limit = Some (Num 0)\<rparr> [])) =
     [\<lparr>url = ''/searches/people'',
       params = [(''query'', PString ''Ada''), (''limit'', PNumber (Num 10)),
                 (''order'', PString ''rank DESC'')]\<rparr>]
   \<and> map sent (snd (getFundingRounds (one_company acme acme)
       \<lparr>fr_company_name_or_id = ''Acme'', fr_limit = Some (Num 0)\<rparr> [])) =
     [\<lparr>url = ''/searches/organizations'',
       params = [(''query'', PString ''Acme''), (''limit'', PNumber (Num 1))]\<rparr>,
      \<lparr>url = ''/entities/organizations/c0ffee'', params = []\<rparr>,
      \<lparr>url = ''/entities/organizations/c0ffee/funding_rounds'',
       params = [(''limit'', PNumber (Num 10)), (''order'', PString ''announced_on DESC'')]\<rparr>]
   \<and> map sent (snd (getAcquisitions (one_company acme acme)
       \<lparr>acq_company_name_or_id = None, acq_limit = Some (Num 0)\<rparr> [])) =
     [\<lparr>url = ''/searches/acquisitions'',
       params = [(''query'', PString []), (''limit'', PNumber (Num 10)),
                 (''order'', PString ''announced_on DESC'')]\<rparr>]"
proof -
  have zero: "\<not> truthy_num (Num 0)"
    by (simp add: truthy_num_def)
  have resolved: "getCompanyDetails (one_company acme acme) \<lparr>name_or_id = ''Acme''\<rparr> [] =
     (Inr acme,
      [\<lparr>sent = \<lparr>url = ''/searches/organizations'',
                   params = [(''query'', PString ''Acme''), (''limit'', PNumber (Num 1))]\<rparr>,
         failure = None\<rparr>,
       \<lparr>sent = \<lparr>url = ''/entities/organizations/'' @ uuid acme, params = []\<rparr>,
         failure = None\<rparr>])"
    using getCompanyDetails_one_company [of acme acme "''Acme''" "[]"] by simp
  have absent: "acquisitions_companyId (one_company acme acme)
      (\<lparr>acq_company_name_or_id = None, acq_limit = None\<rparr>\<lparr>acq_limit := Some (Num 0)\<rparr>) [] = (Inr None, [])"
    by (simp add: acquisitions_companyId_def)
  show ?thesis
    using falsy_limit_replaced_by_default
      [OF zero,
       of "one_company acme acme"
          "\<lparr>sc_query = Some ''AI'', sc_location = None, sc_category = None, sc_founded_after = None,
            sc_founded_before = None, sc_status = None, sc_limit = None\<rparr>"
          "[]"
          "\<lparr>sp_query = Some ''Ada'', sp_company = None, sp_title = None, sp_limit = None\<rparr>"
          "''Acme''" acme
          "[\<lparr>sent = \<lparr>url = ''/searches/organizations'',
                       params = [(''query'', PString ''Acme''), (''limit'', PNumber (Num 1))]\<rparr>,
             failure = None\<rparr>,
            \<lparr>sent = \<lparr>url = ''/entities/organizations/'' @ uuid acme, params = []\<rparr>,
             failure = None\<rparr>]"
          "\<lparr>acq_company_name_or_id = None, acq_limit = None\<rparr>" None "[]"]
      resolved absent
    by (simp add: companies_query_def people_query_def append_filter_def
        or_empty_def acquisitions_query_def acme_def)
qed

section \<open>Resource reads\<close>

text \<open>
  C10. When a URI matches one of the three company templates and its name segment cannot
  be percent-decoded, the read throws an internal-error fault (not an invalid-request
  one) and the trace of HTTP exchanges is unchanged.
\<close>

theorem malformed_escape_is_internal_error:
  assumes "sfx = [] \<or> sfx = ''/funding'' \<or> sfx = ''/acquisitions''"
    and "match_companies sfx u = Some seg"
    and "decodeURIComponent seg = None"
  shows "read_resource fmt up u tr = (Inl (McpError InternalError ''URI malformed''), tr)"
proof -
  note other = match_companies_unique [OF assms(2)]
  have "resource_switch up u tr = (Inl (URIError ''URI malformed''), tr)"
    using assms(1) assms(3) match_companies_not_trending [OF assms(2)]
    by (auto simp: resource_switch_def other)
  then show ?thesis
    by (simp add: read_resource_def message_or_unknown_def)
qed

theorem malformed_escape_is_internal_error_witness:
  "read_resource mcp_message (one_company acme acme) ''crunchbase://companies/100%/funding'' [] =
     (Inl (McpError InternalError ''URI malformed''), [])"
proof -
  have m: "match_companies ''/funding'' ''crunchbase://companies/100%/funding'' = Some ''100%''"
    by (simp add: match_companies_def)
  have d: "decodeURIComponent ''100%'' = None"
    by simp
  show ?thesis
    using malformed_escape_is_internal_error [OF _ m d, of mcp_message "one_company acme acme" "[]"]
    by simp
qed

text \<open>
  C7. A resource read that fails throws a protocol fault and never returns the failure
  as text: a URI that is neither the literal path nor one of the three company
  templates throws the invalid-request fault \<open>Invalid URI: u\<close> without any request; any
  failure of a matched read throws an internal-error fault carrying the message of the
  error raised inside; and contents are returned only for a successful read, as the
  serialised result.
\<close>

theorem resource_failures_are_protocol_faults:
  "(\<not> matches_resource u \<longrightarrow>
      read_resource fmt up u tr = (Inl (McpError InvalidRequest (''Invalid URI: '' @ u)), tr))
   \<and> (matches_resource u \<longrightarrow> read_resource fmt up u tr = (Inl fault, tr') \<longrightarrow>
        (\<exists>error. resource_switch up u tr = (Inl error, tr') \<and> instanceof_Error error
           \<and> fault = McpError InternalError (message fmt error)))
   \<and> (read_resource fmt up u tr = (Inr contents, tr') \<longrightarrow>
        (\<exists>t. resource_switch up u tr = (Inr t, tr') \<and> contents = resource_contents u t
           \<and> (\<forall>m. t \<noteq> Plain m)))"
proof (intro conjI impI)
  assume "\<not> matches_resource u"
  then show "read_resource fmt up u tr = (Inl (McpError InvalidRequest (''Invalid URI: '' @ u)), tr)"
    by (simp add: read_resource_def resource_switch_unmatched)
next
  assume m: "matches_resource u" and f: "read_resource fmt up u tr = (Inl fault, tr')"
  from f obtain error where sw: "resource_switch up u tr = (Inl error, tr')"
    by (auto simp: read_resource_def split: prod.splits sum.splits if_splits)
  from resource_switch_matched_error [OF m sw]
  have e: "instanceof_Error error" "\<not> instanceof_McpError error" by simp_all
  with f sw have "fault = McpError InternalError (message fmt error)"
    by (simp add: read_resource_def message_or_unknown_def)
  with sw e show "\<exists>error. resource_switch up u tr = (Inl error, tr') \<and> instanceof_Error error
           \<and> fault = McpError InternalError (message fmt error)"
    by blast
next
  assume "read_resource fmt up u tr = (Inr contents, tr')"
  then obtain t where t: "resource_switch up u tr = (Inr t, tr')" "contents = resource_contents u t"
    by (auto simp: read_resource_def split: prod.splits sum.splits if_splits)
  with resource_switch_Inr show "\<exists>t. resource_switch up u tr = (Inr t, tr') \<and> contents = resource_contents u t
           \<and> (\<forall>m. t \<noteq> Plain m)"
    by blast
qed

theorem resource_failures_are_protocol_faults_witness:
  "read_resource mcp_message no_results ''scheme://badpath'' [] =
     (Inl (McpError InvalidRequest ''Invalid URI: scheme://badpath''), [])
   \<and> read_resource mcp_message (failing (http_failure 401 None)) ''crunchbase://trending/companies'' [] =
     (Inl (McpError InternalError ''Unauthorized: Invalid API key''),
      [\<lparr>sent = \<lparr>url = ''/searches/organizations'',
                   params = [(''query'', PString []), (''limit'', PNumber (Num 10)),
                             (''order'', PString ''rank DESC'')]\<rparr>,
         failure = Some (http_failure 401 None)\<rparr>])
   \<and> (\<exists>error. resource_switch (failing (http_failure 401 None)) ''crunchbase://trending/companies'' [] =
         (Inl error,
          [\<lparr>sent = \<lparr>url = ''/searches/organizations'',
                       params = [(''query'', PString []), (''limit'', PNumber (Num 10)),
                                 (''order'', PString ''rank DESC'')]\<rparr>,
             failure = Some (http_failure 401 None)\<rparr>])
       \<and> instanceof_Error error
       \<and> McpError InternalError ''Unauthorized: Invalid API key'' =
           McpError InternalError (message mcp_message error))"
proof -
  let ?x = "\<lparr>sent = \<lparr>url = ''/searches/organizations'',
                   params = [(''query'', PString []), (''limit'', PNumber (Num 10)),
                             (''order'', PString ''rank DESC'')]\<rparr>,
         failure = Some (http_failure 401 None)\<rparr>"
  have unmatched: "\<not> matches_resource ''scheme://badpath''"
    by (simp add: matches_resource_def match_companies_def)
  have matched: "matches_resource ''crunchbase://trending/companies''"
    by (simp add: matches_resource_def)
  have failed: "read_resource mcp_message (failing (http_failure 401 None))
      ''crunchbase://trending/companies'' [] =
     (Inl (McpError InternalError ''Unauthorized: Invalid API key''), [?x])"
    by (simp add: read_resource_def resource_switch_def text_of_list_def searchCompanies_def
        rethrow_handled_def return_data_def get_list_def record_exchange_def failing_def
        companies_query_def append_filter_def or_empty_def or_10_def truthy_num_def
        handleError_def http_failure_def message_or_unknown_def)
  have 1: "read_resource mcp_message no_results ''scheme://badpath'' [] =
     (Inl (McpError InvalidRequest ''Invalid URI: scheme://badpath''), [])"
    using unmatched
      resource_failures_are_protocol_faults
        [of "''scheme://badpath''" mcp_message no_results "[]"]
    by simp
  have 2: "\<exists>error. resource_switch (failing (http_failure 401 None)) ''crunchbase://trending/companies'' [] =
         (Inl error, [?x])
       \<and> instanceof_Error error
       \<and> McpError InternalError ''Unauthorized: Invalid API key'' =
           McpError InternalError (message mcp_message error)"
    using matched failed
      resource_failures_are_protocol_faults
        [of "''crunchbase://trending/companies''" mcp_message "failing (http_failure 401 None)" "[]"
            "McpError InternalError ''Unauthorized: Invalid API key''" "[?x]"]
    by blast
  from 1 failed 2 show ?thesis by blast
qed

section \<open>Classification of upstream failures\<close>

text \<open>
  C4. Whichever operation runs and whichever of its requests fails with an HTTP status,
  the operation throws the same classified error: the fixed authentication, not-found
  and rate-limit errors for 401, 404 and 429, and for any other status the error
  \<open>Crunchbase API error (status): message\<close>, where the message is the one in the response
  body, or the client's own when the body has none.
\<close>

theorem http_failure_classified_by_status:
  assumes "run up op tr = (r, tr')"
    and "x \<in> set (drop (length tr) tr')"
    and "failure x = Some e"
    and "response e = Some rsp"
  shows "r = Some
     (if status rsp = 401 then Error ''Unauthorized: Invalid API key''
      else if status rsp = 404 then Error ''Not found: The requested resource does not exist''
      else if status rsp = 429 then Error ''Rate limit exceeded: Too many requests''
      else Error (''Crunchbase API error ('' @ string_of_nat (status rsp) @ ''): '' @
             (case data_message rsp of
                None \<Rightarrow> ax_message e
              | Some m \<Rightarrow> if m \<noteq> [] then m else ax_message e)))"
proof -
  from reports_run [OF assms(1)] obtain new where
    new: "tr' = tr @ new"
      "\<forall>x \<in> set new. \<forall>e. failure x = Some e \<longrightarrow>
         (\<exists>er. r = Some er \<and> handleError er = handleError (AxiosError e))"
    by (auto simp: reports_def)
  from new(1) assms(2) have "x \<in> set new" by simp
  with new(2) assms(3) obtain er where er: "r = Some er" "handleError er = handleError (AxiosError e)"
    by blast
  from assms(1) er(1) have "handleError er = er"
    using handleError_fixed by blast
  with er have "r = Some (handleError (AxiosError e))" by simp
  then show ?thesis
    by (simp only: handleError_by_status [OF assms(4)])
qed

theorem http_failure_classified_by_status_witness:
  "run (failing (http_failure 500 (Some ''boom'')))
     (GetFundingRounds \<lparr>fr_company_name_or_id = ''Acme'', fr_limit = None\<rparr>) [] =
     (Some (Error ''Crunchbase API error (500): boom''),
      [\<lparr>sent = \<lparr>url = ''/searches/organizations'',
                   params = [(''query'', PString ''Acme''), (''limit'', PNumber (Num 1))]\<rparr>,
         failure = Some (http_failure 500 (Some ''boom''))\<rparr>])"
proof -
  let ?up = "failing (http_failure 500 (Some ''boom''))"
  let ?op = "GetFundingRounds \<lparr>fr_company_name_or_id = ''Acme'', fr_limit = None\<rparr>"
  let ?x = "\<lparr>sent = \<lparr>url = ''/searches/organizations'',
                   params = [(''query'', PString ''Acme''), (''limit'', PNumber (Num 1))]\<rparr>,
         failure = Some (http_failure 500 (Some ''boom''))\<rparr>"
  have tr: "snd (run ?up ?op []) = [?x]"
    by (simp add: thrown_eq getFundingRounds_def getCompanyDetails_def getCompanyDetails_try_def
        get_list_def record_exchange_def rethrow_handled_def failing_def)
  then have r: "run ?up ?op [] = (fst (run ?up ?op []), [?x])"
    by (metis prod.collapse)
  have "fst (run ?up ?op []) = Some (Error ''Crunchbase API error (500): boom'')"
    using http_failure_classified_by_status
      [OF r, of ?x "http_failure 500 (Some ''boom'')" "\<lparr>status = 500, data_message = Some ''boom''\<rparr>"]
    by (simp add: http_failure_def string_of_nat_500)
  with r show ?thesis by simp
qed

text \<open>
  C2, as stated, fails: the errors for 401 and 404 are of different kinds, yet apart from
  their message text they are the same value, a plain \<open>Error\<close>.
\<close>

theorem classified_errors_not_distinct_values:
  "kind_of (http_failure 401 None) \<noteq> kind_of (http_failure 404 None)
   \<and> without_message (handleError (AxiosError (http_failure 401 None))) =
     without_message (handleError (AxiosError (http_failure 404 None)))"
  by (simp add: kind_of_def http_failure_def handleError_def)

text \<open>
  C2, amended. Every classified error is a plain \<open>Error\<close>, equal to the others once the
  message is blanked; errors of different kinds (authentication, not-found, rate-limit,
  other status, no response) carry different messages, so the message text is the only
  thing a caller can branch on.
\<close>

theorem classified_errors_differ_in_message_only:
  "without_message (handleError (AxiosError e)) = Error []
   \<and> (kind_of e \<noteq> kind_of e' \<longrightarrow>
        message fmt (handleError (AxiosError e)) \<noteq> message fmt (handleError (AxiosError e')))"
proof (intro conjI impI)
  obtain m where "handleError (AxiosError e) = Error m"
    using handleError_AxiosError by blast
  then show "without_message (handleError (AxiosError e)) = Error []" by simp
next
  assume "kind_of e \<noteq> kind_of e'"
  then show "message fmt (handleError (AxiosError e)) \<noteq> message fmt (handleError (AxiosError e'))"
    unfolding handleError_message_by_kind
    using status_not_undefined status_not_undefined [symmetric]
    by (cases "kind_of e"; cases "kind_of e'") simp_all
qed

theorem classified_errors_differ_in_message_only_witness:
  "without_message (handleError (AxiosError (http_failure 401 None))) = Error []
   \<and> kind_of (http_failure 401 None) \<noteq> kind_of (http_failure 404 None)
   \<and> message mcp_message (handleError (AxiosError (http_failure 401 None))) \<noteq>
     message mcp_message (handleError (AxiosError (http_failure 404 None)))"
proof -
  have k: "kind_of (http_failure 401 None) \<noteq> kind_of (http_failure 404 None)"
    by (simp add: kind_of_def http_failure_def)
  with classified_errors_differ_in_message_only
         [of "http_failure 401 None" "http_failure 404 None" mcp_message]
  show ?thesis by blast
qed

section \<open>Acquisitions\<close>

text \<open>
  C8, as stated, fails: with the reference \<open>Acme\<close> given and resolved to a company whose
  \<open>uuid\<close> is empty, the acquisitions search is sent with an empty query; and with the empty
  string given as reference nothing is resolved at all.
\<close>

theorem acquisitions_reference_given_but_unfiltered:
  "map sent (snd (getAcquisitions (one_company acme nameless)
       \<lparr>acq_company_name_or_id = Some ''Acme'', acq_limit = None\<rparr> [])) =
     [\<lparr>url = ''/searches/organizations'',
       params = [(''query'', PString ''Acme''), (''limit'', PNumber (Num 1))]\<rparr>,
      \<lparr>url = ''/entities/organizations/c0ffee'', params = []\<rparr>,
      \<lparr>url = ''/searches/acquisitions'',
       params = [(''query'', PString []), (''limit'', PNumber (Num 10)),
                 (''order'', PString ''announced_on DESC'')]\<rparr>]
   \<and> map sent (snd (getAcquisitions (one_company acme acme)
       \<lparr>acq_company_name_or_id = Some [], acq_limit = None\<rparr> [])) =
     [\<lparr>url = ''/searches/acquisitions'',
       params = [(''query'', PString []), (''limit'', PNumber (Num 10)),
                 (''order'', PString ''announced_on DESC'')]\<rparr>]"
  by (simp add: getAcquisitions_def acquisitions_companyId_def snd_rethrow_handled
      snd_return_data sent_get_list acquisitions_request_def acquisitions_query_def
      getCompanyDetails_one_company or_10_def acme_def nameless_def)

text \<open>
  C8, amended. If a non-empty company reference is given, the company is resolved first
  (one search and one fetch), a failed resolution fails the call, and the acquisitions
  search that follows carries the disjunctive filter on the resolved id when that id is
  non-empty, and an empty query otherwise. If no reference or an empty one is given, the
  search is sent at once with an empty query. In every case the request asks for order
  \<open>announced_on DESC\<close> and for the limit, 10 when the limit is absent or falsy.
\<close>

theorem acquisitions_query_by_reference:
  "(acq_company_name_or_id p = Some n \<longrightarrow> n \<noteq> [] \<longrightarrow>
      getCompanyDetails up \<lparr>name_or_id = n\<rparr> tr = (Inr company, tr1) \<longrightarrow>
        (\<exists>found :: entity. map sent tr1 = map sent tr @
           [\<lparr>url = ''/searches/organizations'',
             params = [(''query'', PString n), (''limit'', PNumber (Num 1))]\<rparr>,
            \<lparr>url = ''/entities/organizations/'' @ uuid found, params = []\<rparr>])
        \<and> map sent (snd (getAcquisitions up p tr)) = map sent tr1 @
           [\<lparr>url = ''/searches/acquisitions'',
             params = [(''query'', PString
                          (if uuid company \<noteq> []
                           then ''acquirer_identifier.uuid:'' @ uuid company @
                                '' OR acquiree_identifier.uuid:'' @ uuid company
                           else [])),
                       (''limit'', PNumber (or_10 (acq_limit p))),
                       (''order'', PString ''announced_on DESC'')]\<rparr>])
   \<and> (acq_company_name_or_id p = Some n \<longrightarrow> n \<noteq> [] \<longrightarrow>
      getCompanyDetails up \<lparr>name_or_id = n\<rparr> tr = (Inl error, tr1) \<longrightarrow>
        getAcquisitions up p tr = (Inl error, tr1))
   \<and> (or_empty (acq_company_name_or_id p) = [] \<longrightarrow>
        map sent (snd (getAcquisitions up p tr)) = map sent tr @
           [\<lparr>url = ''/searches/acquisitions'',
             params = [(''query'', PString []),
                       (''limit'', PNumber (or_10 (acq_limit p))),
                       (''order'', PString ''announced_on DESC'')]\<rparr>])"
proof (intro conjI impI)
  assume given: "acq_company_name_or_id p = Some n" "n \<noteq> []"
    and resolved: "getCompanyDetails up \<lparr>name_or_id = n\<rparr> tr = (Inr company, tr1)"
  show "\<exists>found :: entity. map sent tr1 = map sent tr @
           [\<lparr>url = ''/searches/organizations'',
             params = [(''query'', PString n), (''limit'', PNumber (Num 1))]\<rparr>,
            \<lparr>url = ''/entities/organizations/'' @ uuid found, params = []\<rparr>]"
    by (rule getCompanyDetails_requests [OF resolved])
  show "map sent (snd (getAcquisitions up p tr)) = map sent tr1 @
           [\<lparr>url = ''/searches/acquisitions'',
             params = [(''query'', PString
                          (if uuid company \<noteq> []
                           then ''acquirer_identifier.uuid:'' @ uuid company @
                                '' OR acquiree_identifier.uuid:'' @ uuid company
                           else [])),
                       (''limit'', PNumber (or_10 (acq_limit p))),
                       (''order'', PString ''announced_on DESC'')]\<rparr>]"
    using given resolved
    by (simp add: getAcquisitions_def acquisitions_companyId_def snd_rethrow_handled
        snd_return_data sent_get_list acquisitions_request_def acquisitions_query_def)
next
  assume given: "acq_company_name_or_id p = Some n" "n \<noteq> []"
    and failed: "getCompanyDetails up \<lparr>name_or_id = n\<rparr> tr = (Inl error, tr1)"
  then show "getAcquisitions up p tr = (Inl error, tr1)"
    using getCompanyDetails_error_fixed [OF failed]
    by (simp add: getAcquisitions_def acquisitions_companyId_def rethrow_handled_def)
next
  assume "or_empty (acq_company_name_or_id p) = []"
  then have "acquisitions_companyId up p tr = (Inr None, tr)"
    by (auto simp: acquisitions_companyId_def or_empty_def split: option.splits)
  then show "map sent (snd (getAcquisitions up p tr)) = map sent tr @
           [\<lparr>url = ''/searches/acquisitions'',
             params = [(''query'', PString []),
                       (''limit'', PNumber (or_10 (acq_limit p))),
                       (''order'', PString ''announced_on DESC'')]\<rparr>]"
    by (simp add: getAcquisitions_def snd_rethrow_handled snd_return_data sent_get_list
        acquisitions_request_def acquisitions_query_def)
qed

theorem acquisitions_query_by_reference_witness:
  "map sent (snd (getAcquisitions (one_company acme acme)
       \<lparr>acq_company_name_or_id = Some ''Acme'', acq_limit = Some (Num 3)\<rparr> [])) =
     [\<lparr>url = ''/searches/organizations'',
       params = [(''query'', PString ''Acme''), (''limit'', PNumber (Num 1))]\<rparr>,
      \<lparr>url = ''/entities/organizations/c0ffee'', params = []\<rparr>,
      \<lparr>url = ''/searches/acquisitions'',
       params = [(''query'', PString ''acquirer_identifier.uuid:c0ffee OR acquiree_identifier.uuid:c0ffee''),
                 (''limit'', PNumber (Num 3)),
                 (''order'', PString ''announced_on DESC'')]\<rparr>]
   \<and> getAcquisitions (failing (http_failure 404 None))
       \<lparr>acq_company_name_or_id = Some ''Acme'', acq_limit = Some (Num 3)\<rparr> [] =
     (Inl (Error ''Not found: The requested resource does not exist''),
      [\<lparr>sent = \<lparr>url = ''/searches/organizations'',
                   params = [(''query'', PString ''Acme''), (''limit'', PNumber (Num 1))]\<rparr>,
         failure = Some (http_failure 404 None)\<rparr>])
   \<and> map sent (snd (getAcquisitions (one_company acme acme)
       \<lparr>acq_company_name_or_id = None, acq_limit = Some (Num 3)\<rparr> [])) =
     [\<lparr>url = ''/searches/acquisitions'',
       params = [(''query'', PString []), (''limit'', PNumber (Num 3)),
                 (''order'', PString ''announced_on DESC'')]\<rparr>]"
proof -
  let ?p = "\<lparr>acq_company_name_or_id = Some ''Acme'', acq_limit = Some (Num 3)\<rparr>"
  let ?tr1 = "[\<lparr>sent = \<lparr>url = ''/searches/organizations'',
                   params = [(''query'', PString ''Acme''), (''limit'', PNumber (Num 1))]\<rparr>,
         failure = None\<rparr>,
       \<lparr>sent = \<lparr>url = ''/entities/organizations/'' @ uuid acme, params = []\<rparr>,
         failure = None\<rparr>]"
  let ?x = "\<lparr>sent = \<lparr>url = ''/searches/organizations'',
                   params = [(''query'', PString ''Acme''), (''limit'', PNumber (Num 1))]\<rparr>,
         failure = Some (http_failure 404 None)\<rparr>"
  have given: "acq_company_name_or_id ?p = Some ''Acme''"
    by simp
  have nonempty: "''Acme'' \<noteq> []"
    by simp
  have resolved: "getCompanyDetails (one_company acme acme) \<lparr>name_or_id = ''Acme''\<rparr> [] = (Inr acme, ?tr1)"
    using getCompanyDetails_one_company [of acme acme "''Acme''" "[]"] by simp
  have failed: "getCompanyDetails (failing (http_failure 404 None)) \<lparr>name_or_id = ''Acme''\<rparr> [] =
      (Inl (Error ''Not found: The requested resource does not exist''), [?x])"
    by (simp add: getCompanyDetails_def getCompanyDetails_try_def get_list_def
        record_exchange_def rethrow_handled_def failing_def handleError_def http_failure_def)
  have 1: "map sent (snd (getAcquisitions (one_company acme acme) ?p [])) =
     [\<lparr>url = ''/searches/organizations'',
       params = [(''query'', PString ''Acme''), (''limit'', PNumber (Num 1))]\<rparr>,
      \<lparr>url = ''/entities/organizations/c0ffee'', params = []\<rparr>,
      \<lparr>url = ''/searches/acquisitions'',
       params = [(''query'', PString ''acquirer_identifier.uuid:c0ffee OR acquiree_identifier.uuid:c0ffee''),
                 (''limit'', PNumber (Num 3)),
                 (''order'', PString ''announced_on DESC'')]\<rparr>]"
    using acquisitions_query_by_reference
        [of ?p "''Acme''" "one_company acme acme" "[]" acme ?tr1 "Error []",
         THEN conjunct1, rule_format, OF given nonempty resolved, THEN conjunct2]
    by (simp add: acme_def or_10_def truthy_num_def)
  have 2: "getAcquisitions (failing (http_failure 404 None)) ?p [] =
      (Inl (Error ''Not found: The requested resource does not exist''), [?x])"
    by (rule acquisitions_query_by_reference
        [of ?p "''Acme''" "failing (http_failure 404 None)" "[]" acme "[?x]"
            "Error ''Not found: The requested resource does not exist''",
         THEN conjunct2, THEN conjunct1, rule_format, OF given nonempty failed])
  have absent: "or_empty (acq_company_name_or_id
      \<lparr>acq_company_name_or_id = None, acq_limit = Some (Num 3)\<rparr>) = []"
    by (simp add: or_empty_def)
  have 3: "map sent (snd (getAcquisitions (one_company acme acme)
       \<lparr>acq_company_name_or_id = None, acq_limit = Some (Num 3)\<rparr> [])) =
     [\<lparr>url = ''/searches/acquisitions'',
       params = [(''query'', PString []), (''limit'', PNumber (Num 3)),
                 (''order'', PString ''announced_on DESC'')]\<rparr>]"
    using acquisitions_query_by_reference
        [of "\<lparr>acq_company_name_or_id = None, acq_limit = Some (Num 3)\<rparr>" "''Acme''"
            "one_company acme acme" "[]" acme "[]" "Error []",
         THEN conjunct2, THEN conjunct2, rule_format, OF absent]
    by (simp add: or_10_def truthy_num_def)
  from 1 2 3 show ?thesis
    by (intro conjI)
qed

end
